theory Spec2Isabelle
  imports Complex_Main
begin

section \<open>The expenditure ledger of montage-core\<close>

text \<open>
  The development embeds the Expenditure model (schema, validators and the pre-save hook)
  and the route handlers \<open>createExpenditure\<close>, \<open>updateExpenditure\<close>,
  \<open>markSplitAsPaid\<close> and \<open>getSettlementSummary\<close>.

  Conventions of the embedding.
  \<^item> A number of a request body or of a stored document is given by the rational that its
    decimal text denotes. The code computes with the binary64 value nearest to it, which
    is what parsing the text yields: the schema validators, the pre-save hook and the
    \<open>totalAmount || amount\<close> of the create handler read a number through
    \<open>as_double\<close> and work in binary64, rounding to nearest, ties to even. The sums
    of the settlement summary (the \<open>$sum\<close> of the pipeline, which the database
    computes, and the two totals over its rows) are taken as exact sums.
  \<^item> An ObjectId is a natural number, a \<open>Date\<close> is a natural number of milliseconds.
    Route parameters are taken as already well-formed ObjectIds.
  \<^item> The database is a record of the user ids known to the \<open>users\<close> collection and
    the list of stored Expenditure documents, in insertion order. Every handler takes the
    database and returns the response together with the database after the request.
  \<^item> The clock (\<open>now\<close>) and the fresh \<open>_id\<close> of a created document are arguments.
  \<^item> \<open>populate\<close> only decorates the response and is left out.
\<close>

subsection \<open>Data model\<close>

type_synonym oid = nat
type_synonym time = nat
type_synonym number = rat

record Split =
  split_user :: oid
  split_amount :: number
  paid :: bool
  settledAt :: "time option"

record Expenditure =
  eid :: oid
  user :: oid
  amount :: number
  category :: string
  description :: string
  date :: time
  paymentMethod :: string
  tags :: "string list"
  location :: "string option"
  splits :: "Split list"
  totalAmount :: number
  paidBy :: oid
  isSettled :: bool
  createdAt :: time
  updatedAt :: time

record db =
  users :: "oid list"
  expenditures :: "Expenditure list"

text \<open>
  The path of a validation error: a top-level field, or the \<open>amount\<close> of the split at
  an index (\<open>splits.N.amount\<close>).
\<close>

datatype path = Field string | SplitAmountAt nat

text \<open>
  What a rejected \<open>save\<close> throws: the ValidationError of the schema validators, with
  its per-path messages, or a plain \<open>Error\<close> (whose \<open>name\<close> is \<open>Error\<close>).
\<close>

datatype error = ValidationError "(path \<times> string) list" | PlainError string

subsection \<open>Binary64 arithmetic\<close>

text \<open>
  A binary64 value is finite, an infinity or NaN. A finite value is given by its exact
  rational value; the two zeros are not told apart, since no operation used here
  distinguishes them.
\<close>

datatype double = Finite rat | PosInf | NegInf | NaN

text \<open>\<open>bits n\<close> is the length of the binary numeral of a positive \<open>n\<close>.\<close>

function bits :: "int \<Rightarrow> int" where
  "bits n = (if n \<le> 0 then 0 else 1 + bits (n div 2))"
  by pat_completeness auto
termination
  by (relation "measure nat") auto

declare bits.simps [simp del]

definition pow2 :: "int \<Rightarrow> rat" where
  "pow2 k = (if k \<ge> 0 then 2 ^ nat k else 1 / 2 ^ nat (- k))"

text \<open>For a positive \<open>q\<close>, the integer \<open>k\<close> with \<open>2^k \<le> q < 2^(k+1)\<close>.\<close>

definition ilog2 :: "rat \<Rightarrow> int" where
  "ilog2 q = (let (a, b) = quotient_of q;
                  k = bits a - bits b
              in if pow2 k \<le> q then k else k - 1)"

text \<open>Rounding to the nearest integer, a tie going to the even one.\<close>

definition rne :: "rat \<Rightarrow> int" where
  "rne x = (let f = \<lfloor>x\<rfloor>; d = x - of_int f
            in if d < 1 / 2 then f else if d > 1 / 2 then f + 1
               else if even f then f else f + 1)"

text \<open>
  Rounding a rational to binary64: the result is \<open>m * 2^e\<close> with a significand of at
  most 53 bits, the exponent \<open>e\<close> not below -1074 (the subnormal range keeps that
  exponent), and a rounded magnitude of \<open>2^1024\<close> or more overflows to an infinity.
\<close>

definition round64 :: "rat \<Rightarrow> double" where
  "round64 q =
     (if q = 0 then Finite 0
      else let e = max (ilog2 \<bar>q\<bar> - 52) (- 1074);
               m = rne (q / pow2 e)
           in if bits \<bar>m\<bar> + e > 1024 then (if q > 0 then PosInf else NegInf)
              else Finite (of_int m * pow2 e))"

text \<open>The binary64 value of a number of the model, and of a decimal literal of the code.\<close>

definition as_double :: "rat \<Rightarrow> double" where
  "as_double q = round64 q"

fun fneg :: "double \<Rightarrow> double" where
  "fneg (Finite x) = Finite (- x)"
| "fneg PosInf = NegInf"
| "fneg NegInf = PosInf"
| "fneg NaN = NaN"

fun fadd :: "double \<Rightarrow> double \<Rightarrow> double" where
  "fadd (Finite x) (Finite y) = round64 (x + y)"
| "fadd NaN b = NaN"
| "fadd a NaN = NaN"
| "fadd PosInf NegInf = NaN"
| "fadd NegInf PosInf = NaN"
| "fadd PosInf b = PosInf"
| "fadd a PosInf = PosInf"
| "fadd NegInf b = NegInf"
| "fadd a NegInf = NegInf"

definition fsub :: "double \<Rightarrow> double \<Rightarrow> double" where
  "fsub a b = fadd a (fneg b)"

fun fabs :: "double \<Rightarrow> double" where
  "fabs (Finite x) = Finite \<bar>x\<bar>"
| "fabs PosInf = PosInf"
| "fabs NegInf = PosInf"
| "fabs NaN = NaN"

text \<open>\<open>a > b\<close> and \<open>a >= b\<close>: false as soon as one side is NaN.\<close>

fun fgt :: "double \<Rightarrow> double \<Rightarrow> bool" where
  "fgt (Finite x) (Finite y) = (x > y)"
| "fgt NaN b = False"
| "fgt a NaN = False"
| "fgt a PosInf = False"
| "fgt PosInf b = True"
| "fgt NegInf b = False"
| "fgt a NegInf = True"

fun fge :: "double \<Rightarrow> double \<Rightarrow> bool" where
  "fge (Finite x) (Finite y) = (x \<ge> y)"
| "fge NaN b = False"
| "fge a NaN = False"
| "fge PosInf b = True"
| "fge a PosInf = False"
| "fge a NegInf = True"
| "fge NegInf b = False"

subsection \<open>Schema validators\<close>

text \<open>The \<open>min: 0\<close> validators accept a value \<open>v\<close> when \<open>v >= 0\<close>.\<close>

definition categories :: "string list" where
  "categories = [''food'', ''transportation'', ''housing'', ''utilities'', ''healthcare'',
     ''entertainment'', ''shopping'', ''education'', ''personal_care'', ''debt_payments'',
     ''savings'', ''gifts'', ''other'']"

definition paymentMethods :: "string list" where
  "paymentMethods = [''cash'', ''credit_card'', ''debit_card'', ''upi'', ''bank_transfer'', ''other'']"

definition is_space :: "char \<Rightarrow> bool" where
  "is_space c = (c \<in> set [CHR '' '', CHR 0x09, CHR 0x0A, CHR 0x0B, CHR 0x0C, CHR 0x0D])"

definition trim :: "string \<Rightarrow> string" where
  "trim s = rev (dropWhile is_space (rev (dropWhile is_space s)))"

definition v_amount :: "number option \<Rightarrow> (path \<times> string) list" where
  "v_amount a = (case a of
       None \<Rightarrow> [(Field ''amount'', ''Amount is required'')]
     | Some x \<Rightarrow> if fge (as_double x) (Finite 0) then []
                else [(Field ''amount'', ''Amount cannot be negative'')])"

definition v_category :: "string option \<Rightarrow> (path \<times> string) list" where
  "v_category c = (case c of
       None \<Rightarrow> [(Field ''category'', ''Category is required'')]
     | Some x \<Rightarrow> if x = [] then [(Field ''category'', ''Category is required'')]
                else if x \<in> set categories then []
                else [(Field ''category'', x @ '' is not a valid category'')])"

definition v_description :: "string option \<Rightarrow> (path \<times> string) list" where
  "v_description d = (case d of
       None \<Rightarrow> [(Field ''description'', ''Description is required'')]
     | Some x \<Rightarrow> if x = [] then [(Field ''description'', ''Description is required'')]
                else if length x > 500
                then [(Field ''description'', ''Description cannot exceed 500 characters'')]
                else [])"

definition v_paymentMethod :: "string option \<Rightarrow> (path \<times> string) list" where
  "v_paymentMethod p = (case p of
       None \<Rightarrow> [(Field ''paymentMethod'', ''Payment method is required'')]
     | Some x \<Rightarrow> if x = [] then [(Field ''paymentMethod'', ''Payment method is required'')]
                else if x \<in> set paymentMethods then []
                else [(Field ''paymentMethod'', x @ '' is not a valid payment method'')])"

definition v_tags :: "string list \<Rightarrow> (path \<times> string) list" where
  "v_tags ts = (if list_all (\<lambda>tag. length tag \<le> 20) ts then []
                else [(Field ''tags'', ''Each tag must be 20 characters or less'')])"

definition v_location :: "string option \<Rightarrow> (path \<times> string) list" where
  "v_location l = (case l of
       None \<Rightarrow> []
     | Some x \<Rightarrow> if length x > 100
                then [(Field ''location'', ''Location cannot exceed 100 characters'')]
                else [])"

definition v_totalAmount :: "number option \<Rightarrow> (path \<times> string) list" where
  "v_totalAmount t = (case t of
       None \<Rightarrow> [(Field ''totalAmount'', ''Total amount is required'')]
     | Some x \<Rightarrow> if fge (as_double x) (Finite 0) then []
                else [(Field ''totalAmount'', ''Total amount cannot be negative'')])"

fun v_splits :: "nat \<Rightarrow> Split list \<Rightarrow> (path \<times> string) list" where
  "v_splits i [] = []"
| "v_splits i (s # ss) =
     (if fge (as_double (split_amount s)) (Finite 0) then []
      else [(SplitAmountAt i, ''Split amount cannot be negative'')])
     @ v_splits (Suc i) ss"

text \<open>The validators of \<open>expenditureSchema\<close> on a complete document.\<close>

definition validate :: "Expenditure \<Rightarrow> (path \<times> string) list" where
  "validate e =
     v_amount (Some (amount e)) @ v_category (Some (category e))
     @ v_description (Some (description e)) @ v_paymentMethod (Some (paymentMethod e))
     @ v_tags (tags e) @ v_location (location e) @ v_splits 0 (splits e)
     @ v_totalAmount (Some (totalAmount e))"

subsection \<open>The pre-save hook (Split Validator)\<close>

text \<open>
  \<^verbatim>\<open>expenditureSchema.pre('save', ...)\<close>: with a non-empty split list, the amounts are
  summed by \<open>reduce\<close> from 0, one binary64 addition for each split in the order of
  the list; \<open>totalAmount\<close> is subtracted, and an absolute value above the binary64
  value of the literal \<open>0.01\<close> passes a plain \<open>Error\<close> to \<open>next\<close>.
\<close>

definition totalSplitAmount :: "Split list \<Rightarrow> double" where
  "totalSplitAmount ss =
     foldl (\<lambda>sum split. fadd sum (as_double (split_amount split))) (Finite 0) ss"

definition pre_save :: "Expenditure \<Rightarrow> error + unit" where
  "pre_save e =
     (if length (splits e) > 0 then
        (if fgt (fabs (fsub (totalSplitAmount (splits e)) (as_double (totalAmount e))))
                (as_double (1 / 100))
         then Inl (PlainError ''Split amounts must add up to the total amount'')
         else Inr ())
      else Inr ())"

subsection \<open>Saving a document\<close>

text \<open>
  \<open>save\<close> runs the schema validation first (it is the first pre-save hook), then the
  hook above, and only then writes. \<open>insert_doc\<close> is the write of a new document,
  \<open>replace_doc\<close> the write of an existing one (the document with the same \<open>_id\<close>).
  The validation of an existing document is taken over all its paths; a save that fails
  leaves the collection as it was, the changes living in the handler's copy only.
\<close>

definition hooks :: "Expenditure \<Rightarrow> error + unit" where
  "hooks e = (if validate e \<noteq> [] then Inl (ValidationError (validate e)) else pre_save e)"

definition insert_doc :: "Expenditure \<Rightarrow> db \<Rightarrow> db" where
  "insert_doc e d = d\<lparr>expenditures := expenditures d @ [e]\<rparr>"

fun replace_in :: "Expenditure \<Rightarrow> Expenditure list \<Rightarrow> Expenditure list" where
  "replace_in e [] = []"
| "replace_in e (x # xs) = (if eid x = eid e then e # xs else x # replace_in e xs)"

definition replace_doc :: "Expenditure \<Rightarrow> db \<Rightarrow> db" where
  "replace_doc e d = d\<lparr>expenditures := replace_in e (expenditures d)\<rparr>"

definition save_new :: "db \<Rightarrow> Expenditure \<Rightarrow> error + (Expenditure \<times> db)" where
  "save_new d e = (case hooks e of Inl err \<Rightarrow> Inl err | Inr _ \<Rightarrow> Inr (e, insert_doc e d))"

definition save :: "db \<Rightarrow> Expenditure \<Rightarrow> time \<Rightarrow> error + (Expenditure \<times> db)" where
  "save d e now =
     (case hooks e of
        Inl err \<Rightarrow> Inl err
      | Inr _ \<Rightarrow> (let e' = e\<lparr>updatedAt := now\<rparr> in Inr (e', replace_doc e' d)))"

subsection \<open>Responses\<close>

datatype body =
    Entity Expenditure
  | ErrorMsg string
  | ValidationFailed "(path \<times> string) list"
  | ServerError error

record response =
  status :: nat
  content :: body

text \<open>
  The error handler of \<open>app.ts\<close>, reached through \<open>next(error)\<close>: the errors thrown
  here carry no \<open>status\<close>, so the status is 500.
\<close>

definition error_handler :: "error \<Rightarrow> response" where
  "error_handler err = \<lparr>status = 500, content = ServerError err\<rparr>"

subsection \<open>POST /expenditures\<close>

text \<open>
  The request body: every key of the schema that the handler lets through. \<open>user\<close> and
  \<open>paidBy\<close> of the body are overwritten by the caller's identity and keys unknown to the
  schema are dropped, so they are not part of the record.
\<close>

record SplitBody =
  sb_user :: oid
  sb_amount :: number
  sb_paid :: "bool option"
  sb_settledAt :: "time option"

record CreateBody =
  b_amount :: "number option"
  b_category :: "string option"
  b_description :: "string option"
  b_date :: "time option"
  b_paymentMethod :: "string option"
  b_tags :: "string list option"
  b_location :: "string option"
  b_totalAmount :: "number option"
  b_splits :: "SplitBody list option"
  b_isSettled :: "bool option"

definition truthy :: "number option \<Rightarrow> bool" where
  "truthy x = (case x of None \<Rightarrow> False
               | Some v \<Rightarrow> as_double v \<noteq> Finite 0 \<and> as_double v \<noteq> NaN)"

definition mk_split :: "SplitBody \<Rightarrow> Split" where
  "mk_split sb = \<lparr>split_user = sb_user sb, split_amount = sb_amount sb,
     paid = (case sb_paid sb of None \<Rightarrow> False | Some p \<Rightarrow> p),
     settledAt = sb_settledAt sb\<rparr>"

text \<open>\<open>totalAmount || expenditureData.amount\<close> and \<open>splits || []\<close>.\<close>

definition effective_total :: "CreateBody \<Rightarrow> number option" where
  "effective_total b = (if truthy (b_totalAmount b) then b_totalAmount b else b_amount b)"

definition effective_splits :: "CreateBody \<Rightarrow> Split list" where
  "effective_splits b = (case b_splits b of None \<Rightarrow> [] | Some ss \<Rightarrow> map mk_split ss)"

text \<open>The validation errors of the candidate built from a body (required fields may be absent).\<close>

definition validate_body :: "CreateBody \<Rightarrow> (path \<times> string) list" where
  "validate_body b =
     v_amount (b_amount b) @ v_category (b_category b)
     @ v_description (map_option trim (b_description b)) @ v_paymentMethod (b_paymentMethod b)
     @ v_tags (case b_tags b of None \<Rightarrow> [] | Some ts \<Rightarrow> ts)
     @ v_location (map_option trim (b_location b)) @ v_splits 0 (effective_splits b)
     @ v_totalAmount (effective_total b)"

text \<open>
  The document \<open>Expenditure.create\<close> builds: schema defaults for \<open>date\<close>, \<open>tags\<close>,
  \<open>paid\<close> and \<open>isSettled\<close>, the \<open>trim\<close> setters, the timestamps. It exists only when the
  required fields are present.
\<close>

definition new_doc :: "oid \<Rightarrow> oid \<Rightarrow> time \<Rightarrow> CreateBody \<Rightarrow> Expenditure option" where
  "new_doc newId caller now b =
     (case (b_amount b, b_category b, b_description b, b_paymentMethod b, effective_total b) of
        (Some a, Some c, Some ds, Some pm, Some t) \<Rightarrow>
          Some \<lparr>eid = newId, user = caller, amount = a, category = c, description = trim ds,
                date = (case b_date b of None \<Rightarrow> now | Some dt \<Rightarrow> dt),
                paymentMethod = pm,
                tags = (case b_tags b of None \<Rightarrow> [] | Some ts \<Rightarrow> ts),
                location = map_option trim (b_location b),
                splits = effective_splits b,
                totalAmount = t, paidBy = caller,
                isSettled = (case b_isSettled b of None \<Rightarrow> False | Some s \<Rightarrow> s),
                createdAt = now, updatedAt = now\<rparr>
      | _ \<Rightarrow> None)"

definition Expenditure_create ::
  "db \<Rightarrow> oid \<Rightarrow> oid \<Rightarrow> time \<Rightarrow> CreateBody \<Rightarrow> error + (Expenditure \<times> db)" where
  "Expenditure_create d newId caller now b =
     (case new_doc newId caller now b of
        None \<Rightarrow> Inl (ValidationError (validate_body b))
      | Some e \<Rightarrow> save_new d e)"

definition createExpenditure :: "db \<Rightarrow> oid \<Rightarrow> oid \<Rightarrow> time \<Rightarrow> CreateBody \<Rightarrow> response \<times> db" where
  "createExpenditure d newId caller now b =
     (case Expenditure_create d newId caller now b of
        Inr (e, d') \<Rightarrow> (\<lparr>status = 201, content = Entity e\<rparr>, d')
      | Inl (ValidationError errs) \<Rightarrow> (\<lparr>status = 400, content = ValidationFailed errs\<rparr>, d)
      | Inl (PlainError m) \<Rightarrow> (error_handler (PlainError m), d))"

subsection \<open>PATCH /expenditures/:id\<close>

text \<open>
  The body is a JSON object: its keys in order, each with a value of the JSON value type
  \<open>'v\<close>. Assigning a value to a path of the document casts it to the path's schema
  type; the casts belong to the persistence library and are parameters of the model. A
  cast that fails yields the message of the error reported for that path when the
  document is validated.
\<close>

record 'v casts =
  to_number :: "'v \<Rightarrow> string + number"
  to_string :: "'v \<Rightarrow> string + string"
  to_opt_string :: "'v \<Rightarrow> string + string option"
  to_date :: "'v \<Rightarrow> string + time"
  to_tags :: "'v \<Rightarrow> string + string list"
  to_bool :: "'v \<Rightarrow> string + bool"
  to_oid :: "'v \<Rightarrow> string + oid"
  to_splits :: "'v \<Rightarrow> string + Split list"

definition cast_into ::
  "string \<Rightarrow> string + 'a \<Rightarrow> ('a \<Rightarrow> Expenditure) \<Rightarrow> Expenditure \<times> (path \<times> string) list
     \<Rightarrow> Expenditure \<times> (path \<times> string) list" where
  "cast_into k r upd st =
     (case r of Inl m \<Rightarrow> (fst st, snd st @ [(Field k, m)]) | Inr x \<Rightarrow> (upd x, snd st))"

text \<open>
  \<^verbatim>\<open>(expenditure as any)[update] = req.body[update]\<close> for one key: every path of the
  schema can be assigned; a key that is no path of the schema is not persisted.
\<close>

definition assign ::
  "'v casts \<Rightarrow> string \<Rightarrow> 'v \<Rightarrow> Expenditure \<times> (path \<times> string) list
     \<Rightarrow> Expenditure \<times> (path \<times> string) list" where
  "assign c k v st = (let e = fst st in
     if k = ''amount'' then cast_into k (to_number c v) (\<lambda>x. e\<lparr>amount := x\<rparr>) st
     else if k = ''category'' then cast_into k (to_string c v) (\<lambda>x. e\<lparr>category := x\<rparr>) st
     else if k = ''description'' then cast_into k (to_string c v) (\<lambda>x. e\<lparr>description := trim x\<rparr>) st
     else if k = ''date'' then cast_into k (to_date c v) (\<lambda>x. e\<lparr>date := x\<rparr>) st
     else if k = ''paymentMethod'' then cast_into k (to_string c v) (\<lambda>x. e\<lparr>paymentMethod := x\<rparr>) st
     else if k = ''tags'' then cast_into k (to_tags c v) (\<lambda>x. e\<lparr>tags := x\<rparr>) st
     else if k = ''location'' then cast_into k (to_opt_string c v) (\<lambda>x. e\<lparr>location := map_option trim x\<rparr>) st
     else if k = ''splits'' then cast_into k (to_splits c v) (\<lambda>x. e\<lparr>splits := x\<rparr>) st
     else if k = ''totalAmount'' then cast_into k (to_number c v) (\<lambda>x. e\<lparr>totalAmount := x\<rparr>) st
     else if k = ''paidBy'' then cast_into k (to_oid c v) (\<lambda>x. e\<lparr>paidBy := x\<rparr>) st
     else if k = ''isSettled'' then cast_into k (to_bool c v) (\<lambda>x. e\<lparr>isSettled := x\<rparr>) st
     else if k = ''user'' then cast_into k (to_oid c v) (\<lambda>x. e\<lparr>user := x\<rparr>) st
     else st)"

definition allowedUpdates :: "string list" where
  "allowedUpdates = [''amount'', ''category'', ''description'', ''date'', ''paymentMethod'',
     ''tags'', ''location'']"

definition isValidOperation :: "string list \<Rightarrow> bool" where
  "isValidOperation updates = list_all (\<lambda>update. update \<in> set allowedUpdates) updates"

definition apply_updates ::
  "'v casts \<Rightarrow> (string \<times> 'v) list \<Rightarrow> Expenditure \<Rightarrow> Expenditure \<times> (path \<times> string) list" where
  "apply_updates c b e =
     foldl (\<lambda>st update. case map_of b update of None \<Rightarrow> st | Some v \<Rightarrow> assign c update v st)
       (e, []) (map fst b)"

definition updateExpenditure ::
  "'v casts \<Rightarrow> db \<Rightarrow> oid \<Rightarrow> oid \<Rightarrow> time \<Rightarrow> (string \<times> 'v) list \<Rightarrow> response \<times> db" where
  "updateExpenditure c d caller ident now b =
     (if \<not> isValidOperation (map fst b) then
        (\<lparr>status = 400, content = ErrorMsg ''Invalid updates''\<rparr>, d)
      else case find (\<lambda>e. eid e = ident \<and> user e = caller) (expenditures d) of
        None \<Rightarrow> (\<lparr>status = 404, content = ErrorMsg ''Expenditure not found''\<rparr>, d)
      | Some e \<Rightarrow>
          (let st = apply_updates c b e in
           if snd st \<noteq> [] then
             (\<lparr>status = 400, content = ValidationFailed (snd st @ validate (fst st))\<rparr>, d)
           else case save d (fst st) now of
             Inr (e', d') \<Rightarrow> (\<lparr>status = 200, content = Entity e'\<rparr>, d')
           | Inl (ValidationError errs) \<Rightarrow> (\<lparr>status = 400, content = ValidationFailed errs\<rparr>, d)
           | Inl (PlainError m) \<Rightarrow> (error_handler (PlainError m), d)))"

subsection \<open>POST /expenditures/:expenditureId/mark-paid\<close>

text \<open>
  \<open>expenditure.splits.find\<close> yields the first split of the caller, and the two
  assignments change that split inside the document: \<open>mark_first\<close> returns the split
  list after them, or \<open>None\<close> when \<open>find\<close> yields \<open>undefined\<close>.
\<close>

fun mark_first :: "oid \<Rightarrow> time \<Rightarrow> Split list \<Rightarrow> Split list option" where
  "mark_first u now [] = None"
| "mark_first u now (s # ss) =
     (if split_user s = u then Some (s\<lparr>paid := True, settledAt := Some now\<rparr> # ss)
      else map_option (\<lambda>r. s # r) (mark_first u now ss))"

definition markable :: "oid \<Rightarrow> oid \<Rightarrow> Expenditure \<Rightarrow> bool" where
  "markable expenditureId caller e =
     (eid e = expenditureId \<and> caller \<in> set (map split_user (splits e)) \<and> isSettled e = False)"

definition markSplitAsPaid :: "db \<Rightarrow> oid \<Rightarrow> oid \<Rightarrow> time \<Rightarrow> response \<times> db" where
  "markSplitAsPaid d caller expenditureId now =
     (case find (markable expenditureId caller) (expenditures d) of
        None \<Rightarrow> (\<lparr>status = 404, content = ErrorMsg ''Expenditure not found or already settled''\<rparr>, d)
      | Some e \<Rightarrow>
          (case mark_first caller now (splits e) of
             None \<Rightarrow> (\<lparr>status = 404, content = ErrorMsg ''Split not found for this user''\<rparr>, d)
           | Some ss \<Rightarrow>
               (let e1 = e\<lparr>splits := ss\<rparr>;
                    allPaid = list_all paid ss;
                    e2 = (if allPaid then e1\<lparr>isSettled := True\<rparr> else e1)
                in case save d e2 now of
                     Inr (e', d') \<Rightarrow> (\<lparr>status = 200, content = Entity e'\<rparr>, d')
                   | Inl err \<Rightarrow> (error_handler err, d))))"

subsection \<open>GET /expenditures/settlements (Balance Aggregator)\<close>

record Transaction =
  t_id :: oid
  t_description :: string
  t_amount :: "number option"
  t_date :: time

text \<open>
  One row of the \<open>$group\<close> stage. \<open>counterparty\<close> is \<open>_id.userId\<close>, absent when
  \<open>$arrayElemAt\<close> reads an empty array.
\<close>

record Settlement =
  counterparty :: "oid option"
  totalOwed :: number
  transactions :: "Transaction list"
  userDetails :: "oid option"

record SettlementSummary =
  settlements :: "Settlement list"
  totalToReceive :: number
  totalToPay :: number

definition stage_match :: "oid \<Rightarrow> db \<Rightarrow> Expenditure list" where
  "stage_match u d =
     filter (\<lambda>e. isSettled e = False \<and> (paidBy e = u \<or> u \<in> set (map split_user (splits e))))
       (expenditures d)"

text \<open>\<open>$lookup\<close> of the payer followed by \<open>$unwind\<close>: a document whose payer is unknown is dropped.\<close>

definition stage_lookup :: "db \<Rightarrow> Expenditure list \<Rightarrow> Expenditure list" where
  "stage_lookup d es = filter (\<lambda>e. paidBy e \<in> set (users d)) es"

definition userSplit :: "oid \<Rightarrow> Expenditure \<Rightarrow> Split option" where
  "userSplit u e = (case filter (\<lambda>split. split_user split = u) (splits e) of
       [] \<Rightarrow> None | s # _ \<Rightarrow> Some s)"

definition group_key :: "oid \<Rightarrow> Expenditure \<Rightarrow> oid option" where
  "group_key u e =
     (if paidBy e = u then (case splits e of [] \<Rightarrow> None | s # _ \<Rightarrow> Some (split_user s))
      else Some (paidBy e))"

definition owed :: "oid \<Rightarrow> Expenditure \<Rightarrow> number option" where
  "owed u e =
     (if paidBy e = u then (case splits e of [] \<Rightarrow> None | s # _ \<Rightarrow> Some (split_amount s))
      else map_option (\<lambda>s. split_amount s * (- 1)) (userSplit u e))"

text \<open>\<open>$sum\<close> skips a missing value.\<close>

definition sum_owed :: "oid \<Rightarrow> Expenditure list \<Rightarrow> number" where
  "sum_owed u es = sum_list (map (\<lambda>e. case owed u e of None \<Rightarrow> 0 | Some x \<Rightarrow> x) es)"

definition mk_transaction :: "oid \<Rightarrow> Expenditure \<Rightarrow> Transaction" where
  "mk_transaction u e =
     \<lparr>t_id = eid e, t_description = description e, t_amount = owed u e, t_date = date e\<rparr>"

definition mk_group :: "oid \<Rightarrow> Expenditure list \<Rightarrow> oid option \<Rightarrow> Settlement" where
  "mk_group u es k =
     (let members = filter (\<lambda>e. group_key u e = k) es in
      \<lparr>counterparty = k, totalOwed = sum_owed u members,
       transactions = map (mk_transaction u) members,
       userDetails = (case members of [] \<Rightarrow> None | e # _ \<Rightarrow> Some (paidBy e))\<rparr>)"

definition stage_group :: "oid \<Rightarrow> Expenditure list \<Rightarrow> Settlement list" where
  "stage_group u es = map (mk_group u es) (remdups (map (group_key u) es))"

definition groups :: "db \<Rightarrow> oid \<Rightarrow> Settlement list" where
  "groups d u = stage_group u (stage_lookup d (stage_match u d))"

text \<open>\<open>$match totalOwed \<noteq> 0\<close>, then \<open>$sort totalOwed: -1\<close>.\<close>

definition summary :: "db \<Rightarrow> oid \<Rightarrow> Settlement list" where
  "summary d u = sort_key (\<lambda>s. - totalOwed s) (filter (\<lambda>s. totalOwed s \<noteq> 0) (groups d u))"

definition getSettlementSummary :: "db \<Rightarrow> oid \<Rightarrow> SettlementSummary" where
  "getSettlementSummary d u =
     \<lparr>settlements = summary d u,
      totalToReceive =
        foldl (\<lambda>sum s. sum + totalOwed s) 0 (filter (\<lambda>s. totalOwed s > 0) (summary d u)),
      totalToPay =
        foldl (\<lambda>sum s. sum + \<bar>totalOwed s\<bar>) 0 (filter (\<lambda>s. totalOwed s < 0) (summary d u))\<rparr>"

section \<open>Auxiliary definitions\<close>

text \<open>
  The fields of a stored document that the field-update path has to leave alone, together
  with the two that identify it.
\<close>

definition frame :: "Expenditure \<Rightarrow> oid \<times> oid \<times> Split list \<times> number \<times> oid \<times> bool" where
  "frame e = (eid e, user e, splits e, totalAmount e, paidBy e, isSettled e)"

text \<open>The value that the hook compares with the binary64 value of 0.01.\<close>

definition mismatch :: "Split list \<Rightarrow> number \<Rightarrow> double" where
  "mismatch ss t = fabs (fsub (totalSplitAmount ss) (as_double t))"

text \<open>
  No operation of the hook rounds: every amount and the total are binary64 values, and
  every partial sum and the final difference are binary64 values too.
\<close>

fun unrounded :: "rat \<Rightarrow> rat list \<Rightarrow> bool" where
  "unrounded s [] = True"
| "unrounded s (a # as) =
     (as_double a = Finite a \<and> fadd (Finite s) (Finite a) = Finite (s + a) \<and> unrounded (s + a) as)"

definition exact_check :: "Split list \<Rightarrow> number \<Rightarrow> bool" where
  "exact_check ss t =
     (unrounded 0 (map split_amount ss) \<and> as_double t = Finite t
      \<and> fsub (Finite (sum_list (map split_amount ss))) (Finite t)
          = Finite (sum_list (map split_amount ss) - t))"

subsection \<open>Concrete requests and databases\<close>

text \<open>
  Request bodies: a dinner of 100 whose splits sum to 110 (\<open>body70\<close>), a bill of
  0.02 with one split of 0.01 (\<open>body_cent\<close>), a dinner whose only split is already
  paid (\<open>body_allpaid\<close>), one that sets \<open>isSettled\<close> itself (\<open>body_flag\<close>), a
  bill of 1e15 with splits of 1e15 and 0.04 (\<open>body_big\<close>), and an unsplit expense
  with the amount -1 (\<open>body_negative\<close>).
  Below them, the documents \<open>Expenditure.create\<close> builds from these bodies at time 0
  with \<open>_id\<close> 7 for caller 1.
\<close>

definition db0 :: db where
  "db0 = \<lparr>users = [1, 2, 3], expenditures = []\<rparr>"

definition body70 :: CreateBody where
  "body70 = \<lparr>b_amount = Some 100, b_category = Some ''food'', b_description = Some ''Dinner'',
     b_date = None, b_paymentMethod = Some ''cash'', b_tags = None, b_location = None,
     b_totalAmount = Some 100,
     b_splits = Some [\<lparr>sb_user = 2, sb_amount = 70, sb_paid = Some False, sb_settledAt = None\<rparr>,
                      \<lparr>sb_user = 1, sb_amount = 40, sb_paid = Some True, sb_settledAt = None\<rparr>],
     b_isSettled = None\<rparr>"

definition body_cent :: CreateBody where
  "body_cent = \<lparr>b_amount = Some (2 / 100), b_category = Some ''food'', b_description = Some ''Dinner'',
     b_date = None, b_paymentMethod = Some ''cash'', b_tags = None, b_location = None,
     b_totalAmount = Some (2 / 100),
     b_splits = Some [\<lparr>sb_user = 2, sb_amount = 1 / 100, sb_paid = None, sb_settledAt = None\<rparr>],
     b_isSettled = None\<rparr>"

definition body_allpaid :: CreateBody where
  "body_allpaid = \<lparr>b_amount = Some 100, b_category = Some ''food'', b_description = Some ''Dinner'',
     b_date = None, b_paymentMethod = Some ''cash'', b_tags = None, b_location = None,
     b_totalAmount = Some 100,
     b_splits = Some [\<lparr>sb_user = 2, sb_amount = 100, sb_paid = Some True, sb_settledAt = None\<rparr>],
     b_isSettled = None\<rparr>"

definition body_flag :: CreateBody where
  "body_flag = \<lparr>b_amount = Some 100, b_category = Some ''food'', b_description = Some ''Dinner'',
     b_date = None, b_paymentMethod = Some ''cash'', b_tags = None, b_location = None,
     b_totalAmount = Some 100,
     b_splits = Some [\<lparr>sb_user = 2, sb_amount = 100, sb_paid = None, sb_settledAt = None\<rparr>],
     b_isSettled = Some True\<rparr>"

definition body_big :: CreateBody where
  "body_big = \<lparr>b_amount = Some (10 ^ 15), b_category = Some ''food'', b_description = Some ''Dinner'',
     b_date = None, b_paymentMethod = Some ''cash'', b_tags = None, b_location = None,
     b_totalAmount = Some (10 ^ 15),
     b_splits = Some [\<lparr>sb_user = 2, sb_amount = 10 ^ 15, sb_paid = None, sb_settledAt = None\<rparr>,
                      \<lparr>sb_user = 3, sb_amount = 4 / 100, sb_paid = None, sb_settledAt = None\<rparr>],
     b_isSettled = None\<rparr>"

definition body_negative :: CreateBody where
  "body_negative = \<lparr>b_amount = Some (- 1), b_category = Some ''food'', b_description = Some ''Dinner'',
     b_date = None, b_paymentMethod = Some ''cash'', b_tags = None, b_location = None,
     b_totalAmount = None, b_splits = None, b_isSettled = None\<rparr>"

definition e70 :: Expenditure where
  "e70 = \<lparr>eid = 7, user = 1, amount = 100, category = ''food'', description = ''Dinner'',
     date = 0, paymentMethod = ''cash'', tags = [], location = None,
     splits = [\<lparr>split_user = 2, split_amount = 70, paid = False, settledAt = None\<rparr>,
               \<lparr>split_user = 1, split_amount = 40, paid = True, settledAt = None\<rparr>],
     totalAmount = 100, paidBy = 1, isSettled = False, createdAt = 0, updatedAt = 0\<rparr>"

definition e_cent :: Expenditure where
  "e_cent = \<lparr>eid = 7, user = 1, amount = 2 / 100, category = ''food'', description = ''Dinner'',
     date = 0, paymentMethod = ''cash'', tags = [], location = None,
     splits = [\<lparr>split_user = 2, split_amount = 1 / 100, paid = False, settledAt = None\<rparr>],
     totalAmount = 2 / 100, paidBy = 1, isSettled = False, createdAt = 0, updatedAt = 0\<rparr>"

definition e_big :: Expenditure where
  "e_big = \<lparr>eid = 7, user = 1, amount = 10 ^ 15, category = ''food'', description = ''Dinner'',
     date = 0, paymentMethod = ''cash'', tags = [], location = None,
     splits = [\<lparr>split_user = 2, split_amount = 10 ^ 15, paid = False, settledAt = None\<rparr>,
               \<lparr>split_user = 3, split_amount = 4 / 100, paid = False, settledAt = None\<rparr>],
     totalAmount = 10 ^ 15, paidBy = 1, isSettled = False, createdAt = 0, updatedAt = 0\<rparr>"

definition e_negative :: Expenditure where
  "e_negative = \<lparr>eid = 7, user = 1, amount = - 1, category = ''food'', description = ''Dinner'',
     date = 0, paymentMethod = ''cash'', tags = [], location = None, splits = [],
     totalAmount = - 1, paidBy = 1, isSettled = False, createdAt = 0, updatedAt = 0\<rparr>"

definition e_allpaid :: Expenditure where
  "e_allpaid = \<lparr>eid = 7, user = 1, amount = 100, category = ''food'', description = ''Dinner'',
     date = 0, paymentMethod = ''cash'', tags = [], location = None,
     splits = [\<lparr>split_user = 2, split_amount = 100, paid = True, settledAt = None\<rparr>],
     totalAmount = 100, paidBy = 1, isSettled = False, createdAt = 0, updatedAt = 0\<rparr>"

definition e_flag :: Expenditure where
  "e_flag = \<lparr>eid = 7, user = 1, amount = 100, category = ''food'', description = ''Dinner'',
     date = 0, paymentMethod = ''cash'', tags = [], location = None,
     splits = [\<lparr>split_user = 2, split_amount = 100, paid = False, settledAt = None\<rparr>],
     totalAmount = 100, paidBy = 1, isSettled = True, createdAt = 0, updatedAt = 0\<rparr>"

text \<open>
  Stored documents: \<open>dinner\<close> is the bill of 100 paid by user 1, with a given split
  list, settled flag and time of last update; \<open>bill\<close> is an unsettled bill with a given
  \<open>_id\<close>, payer, split list and total.
\<close>

definition share :: "oid \<Rightarrow> number \<Rightarrow> bool \<Rightarrow> time option \<Rightarrow> Split" where
  "share u a p t = \<lparr>split_user = u, split_amount = a, paid = p, settledAt = t\<rparr>"

definition dinner :: "Split list \<Rightarrow> bool \<Rightarrow> time \<Rightarrow> Expenditure" where
  "dinner ss settled upd = \<lparr>eid = 7, user = 1, amount = 100, category = ''food'',
     description = ''Dinner'', date = 0, paymentMethod = ''cash'', tags = [], location = None,
     splits = ss, totalAmount = 100, paidBy = 1, isSettled = settled,
     createdAt = 0, updatedAt = upd\<rparr>"

definition db_with :: "Expenditure list \<Rightarrow> db" where
  "db_with es = \<lparr>users = [1, 2, 3], expenditures = es\<rparr>"

definition db1 :: db where
  "db1 = db_with [dinner [share 2 60 False None, share 3 40 False None] False 0]"

definition bill :: "oid \<Rightarrow> oid \<Rightarrow> Split list \<Rightarrow> number \<Rightarrow> Expenditure" where
  "bill ident payer ss tot = \<lparr>eid = ident, user = payer, amount = tot, category = ''food'',
     description = ''Dinner'', date = 0, paymentMethod = ''cash'', tags = [], location = None,
     splits = ss, totalAmount = tot, paidBy = payer, isSettled = False,
     createdAt = 0, updatedAt = 0\<rparr>"

definition db_own :: db where
  "db_own = \<lparr>users = [1, 2], expenditures =
     [bill 7 1 [share 1 40 True None, share 2 60 False None] 100]\<rparr>"


text \<open>
  A value type for PATCH bodies and casts that accept a value of the matching kind only.
\<close>

datatype json = JNull | JBool bool | JNum rat | JStr string | JTags "string list"

definition strict_casts :: "json casts" where
  "strict_casts = \<lparr>
     to_number = (\<lambda>v. case v of JNum n \<Rightarrow> Inr n | _ \<Rightarrow> Inl ''Cast to Number failed''),
     to_string = (\<lambda>v. case v of JStr s \<Rightarrow> Inr s | _ \<Rightarrow> Inl ''Cast to String failed''),
     to_opt_string = (\<lambda>v. case v of JStr s \<Rightarrow> Inr (Some s) | JNull \<Rightarrow> Inr None
                          | _ \<Rightarrow> Inl ''Cast to String failed''),
     to_date = (\<lambda>v. case v of JNum n \<Rightarrow> Inr (nat \<lfloor>n\<rfloor>) | _ \<Rightarrow> Inl ''Cast to Date failed''),
     to_tags = (\<lambda>v. case v of JTags ts \<Rightarrow> Inr ts | _ \<Rightarrow> Inl ''Cast to Array failed''),
     to_bool = (\<lambda>v. case v of JBool b \<Rightarrow> Inr b | _ \<Rightarrow> Inl ''Cast to Boolean failed''),
     to_oid = (\<lambda>v. Inl ''Cast to ObjectId failed''),
     to_splits = (\<lambda>v. Inl ''Cast to Array failed'')\<rparr>"

section \<open>The Split Validator and the create path\<close>


lemma totalSplitAmount_amounts:
  "totalSplitAmount ss
     = foldl (\<lambda>sum a. fadd sum (as_double a)) (Finite 0) (map split_amount ss)"
  by (simp add: totalSplitAmount_def foldl_map)

lemma unrounded_foldl:
  "unrounded s as \<Longrightarrow>
     foldl (\<lambda>sum a. fadd sum (as_double a)) (Finite s) as = Finite (s + sum_list as)"
proof (induction as arbitrary: s)
  case Nil
  then show ?case by simp
next
  case (Cons a as)
  then have a: "as_double a = Finite a" and b: "fadd (Finite s) (Finite a) = Finite (s + a)"
    and c: "unrounded (s + a) as"
    by simp_all
  have "foldl (\<lambda>sum a. fadd sum (as_double a)) (Finite s) (a # as)
          = foldl (\<lambda>sum a. fadd sum (as_double a)) (fadd (Finite s) (Finite a)) as"
    by (simp add: a del: fadd.simps)
  also have "\<dots> = Finite (s + a + sum_list as)"
    unfolding b by (rule Cons.IH [OF c])
  finally show ?case by (simp add: add.assoc)
qed

lemma exact_mismatch:
  assumes "exact_check ss t"
  shows "mismatch ss t = Finite \<bar>sum_list (map split_amount ss) - t\<bar>"
proof -
  from assms have u: "unrounded 0 (map split_amount ss)" and t: "as_double t = Finite t"
    and d: "fsub (Finite (sum_list (map split_amount ss))) (Finite t)
              = Finite (sum_list (map split_amount ss) - t)"
    by (simp_all add: exact_check_def)
  have "totalSplitAmount ss = Finite (sum_list (map split_amount ss))"
    using unrounded_foldl [OF u] by (simp add: totalSplitAmount_amounts)
  then show ?thesis
    by (simp add: mismatch_def t d del: fadd.simps)
qed

lemma cent_value: "as_double (1 / 100) = Finite (5764607523034235 / 576460752303423488)"
  by code_simp

text \<open>
  The hook's comparison at some decimal amounts. 60 + 40 against 100.01, three times 33.33
  against 100, 1 against 1.01 and 0.03 against 0.04 are above the threshold, although the
  decimals differ by 0.01; 0.01 against 0.02 and 1e15 + 0.04 against 1e15 are not.
\<close>

lemma hook_at_decimals:
  "fgt (mismatch [share 2 60 False None, share 3 40 False None] (10001 / 100)) (as_double (1 / 100))
   \<and> fgt (mismatch [share 1 (3333 / 100) False None, share 2 (3333 / 100) False None,
                      share 3 (3333 / 100) False None] 100) (as_double (1 / 100))
   \<and> fgt (mismatch [share 2 1 False None] (101 / 100)) (as_double (1 / 100))
   \<and> fgt (mismatch [share 2 (3 / 100) False None] (4 / 100)) (as_double (1 / 100))
   \<and> \<not> fgt (mismatch [share 2 (1 / 100) False None] (2 / 100)) (as_double (1 / 100))
   \<and> \<not> fgt (mismatch [share 2 (10 ^ 15) False None, share 3 (4 / 100) False None] (10 ^ 15))
          (as_double (1 / 100))"
  by code_simp

lemma exact_test:
  "exact_check ss t \<Longrightarrow>
     fgt (mismatch ss t) (as_double (1 / 100))
       = (\<bar>sum_list (map split_amount ss) - t\<bar> > 5764607523034235 / 576460752303423488)"
  by (simp add: exact_mismatch cent_value)

lemma pre_save_accepts_iff:
  "(pre_save e = Inr ()) =
     (splits e = [] \<or> \<not> fgt (mismatch (splits e) (totalAmount e)) (as_double (1 / 100)))"
  by (auto simp: pre_save_def mismatch_def)

lemma pre_save_rejects:
  "pre_save e \<noteq> Inr () \<Longrightarrow>
     pre_save e = Inl (PlainError ''Split amounts must add up to the total amount'')"
  by (simp add: pre_save_def split: if_splits)

lemma hooks_iff: "(hooks e = Inr ()) = (validate e = [] \<and> pre_save e = Inr ())"
  by (simp add: hooks_def)

lemma hooks_cases: "hooks e = Inr () \<or> isl (hooks e)"
  by (cases "hooks e") simp_all

lemma hooks_rejects: "pre_save e \<noteq> Inr () \<Longrightarrow> isl (hooks e)"
  using hooks_cases [of e] by (auto simp: hooks_iff)

lemma save_new_iff: "(save_new d e = Inr (e, insert_doc e d)) = (hooks e = Inr ())"
  by (cases "hooks e") (simp_all add: save_new_def)

lemma save_iff:
  "(save d e now = Inr (e\<lparr>updatedAt := now\<rparr>, replace_doc (e\<lparr>updatedAt := now\<rparr>) d))
     = (hooks e = Inr ())"
  by (cases "hooks e") (simp_all add: save_def Let_def)

lemma save_new_rejects: "isl (hooks e) \<Longrightarrow> isl (save_new d e)"
  by (cases "hooks e") (simp_all add: save_new_def)

lemma save_rejects: "isl (hooks e) \<Longrightarrow> isl (save d e now)"
  by (cases "hooks e") (simp_all add: save_def)

lemma saveD:
  "save d e now = Inr (e', d') \<Longrightarrow> e' = e\<lparr>updatedAt := now\<rparr> \<and> d' = replace_doc e' d"
  by (cases "hooks e") (auto simp: save_def Let_def)

lemma create_rejected_unchanged:
  "isl (Expenditure_create d newId caller now b) \<Longrightarrow>
     snd (createExpenditure d newId caller now b) = d
     \<and> status (fst (createExpenditure d newId caller now b)) \<noteq> 201"
  by (cases "Expenditure_create d newId caller now b")
     (auto simp: createExpenditure_def error_handler_def split: error.splits)

lemma create_of_doc:
  "new_doc newId caller now b = Some e \<Longrightarrow> Expenditure_create d newId caller now b = save_new d e"
  by (simp add: Expenditure_create_def)

lemma create_no_doc:
  "new_doc newId caller now b = None \<Longrightarrow> isl (Expenditure_create d newId caller now b)"
  by (simp add: Expenditure_create_def)

lemma create_accepted:
  "new_doc newId caller now b = Some e \<Longrightarrow> hooks e = Inr () \<Longrightarrow>
     createExpenditure d newId caller now b = (\<lparr>status = 201, content = Entity e\<rparr>, insert_doc e d)"
  by (simp add: createExpenditure_def Expenditure_create_def save_new_def)

lemma new_doc_fields:
  "new_doc newId caller now b = Some e \<Longrightarrow>
     splits e = effective_splits b \<and> effective_total b = Some (totalAmount e)
     \<and> isSettled e = (case b_isSettled b of None \<Rightarrow> False | Some s \<Rightarrow> s)"
  by (auto simp: new_doc_def split: option.splits)

lemma create_mismatch_refused:
  assumes "effective_splits b \<noteq> []" and "effective_total b = Some t"
    and "fgt (mismatch (effective_splits b) t) (as_double (1 / 100))"
  shows "status (fst (createExpenditure d newId caller now b)) \<noteq> 201
         \<and> snd (createExpenditure d newId caller now b) = d"
proof -
  have "isl (Expenditure_create d newId caller now b)"
  proof (cases "new_doc newId caller now b")
    case None
    then show ?thesis by (rule create_no_doc)
  next
    case (Some e)
    then have f: "splits e = effective_splits b" "totalAmount e = t"
      using new_doc_fields [OF Some] assms(2) by simp_all
    have "pre_save e \<noteq> Inr ()"
      using assms(1,3) f by (simp add: pre_save_accepts_iff)
    then show ?thesis
      using Some by (simp add: create_of_doc save_new_rejects hooks_rejects)
  qed
  then show ?thesis
    using create_rejected_unchanged by simp
qed

lemma new_doc_body70: "new_doc 7 1 0 body70 = Some e70"
  by code_simp

lemma new_doc_body_cent: "new_doc 7 1 0 body_cent = Some e_cent"
  by code_simp

lemma validate_e_cent: "validate e_cent = []"
  by code_simp

lemma pre_save_e70: "pre_save e70 \<noteq> Inr ()"
  by code_simp

lemma pre_save_e_cent: "pre_save e_cent = Inr ()"
  by code_simp

lemma exact_check_e70: "exact_check (splits e70) (totalAmount e70)"
  by code_simp

lemma create_body_allpaid:
  "createExpenditure db0 7 1 0 body_allpaid =
     (\<lparr>status = 201, content = Entity e_allpaid\<rparr>, \<lparr>users = [1, 2, 3], expenditures = [e_allpaid]\<rparr>)"
  by code_simp

text \<open>
  Claim C1 as stated fails in both directions. An unsplit expense with the amount -1 has
  an empty split list and is refused, by the schema validators, which run before the
  hook. A bill of 1e15 with splits of 1e15 and 0.04 is accepted although the amounts
  exceed the total by 0.04: the binary64 sum of 1e15 and 0.04 is 1e15, so the mismatch
  that the hook computes is 0.
\<close>

theorem save_acceptance_differs_from_exact_rule:
  "splits e_negative = []
   \<and> save_new db0 e_negative =
       Inl (ValidationError [(Field ''amount'', ''Amount cannot be negative''),
                            (Field ''totalAmount'', ''Total amount cannot be negative'')])
   \<and> createExpenditure db0 7 1 0 body_negative =
       (\<lparr>status = 400, content = ValidationFailed
           [(Field ''amount'', ''Amount cannot be negative''),
            (Field ''totalAmount'', ''Total amount cannot be negative'')]\<rparr>, db0)
   \<and> splits e_big \<noteq> []
   \<and> \<bar>sum_list (map split_amount (splits e_big)) - totalAmount e_big\<bar> = 4 / 100
   \<and> mismatch (splits e_big) (totalAmount e_big) = Finite 0
   \<and> save_new db0 e_big = Inr (e_big, insert_doc e_big db0)
   \<and> createExpenditure db0 7 1 0 body_big =
       (\<lparr>status = 201, content = Entity e_big\<rparr>, \<lparr>users = [1, 2, 3], expenditures = [e_big]\<rparr>)"
  by code_simp

text \<open>
  Claim C1, as the code has it. The pre-save hook accepts a candidate exactly when its
  split list is empty or the mismatch computed in binary64 (the amounts added in list
  order from 0, \<open>totalAmount\<close> subtracted, the absolute value taken) is not greater than
  the binary64 value of 0.01. A save, of a new document or of an existing one, is accepted
  exactly when the schema validators have no complaint and the hook accepts. A save that
  is not accepted returns an error, so nothing is written, and the create handler then
  answers without a 201 and hands back the database it was given. When no operation of
  the hook rounds, the computed mismatch is above the threshold exactly when the exact
  difference of sum and total is above 5764607523034235 / 2^59, the binary64 value of
  0.01.
\<close>

theorem split_validator_contract:
  "(pre_save e = Inr ()) =
     (splits e = [] \<or> \<not> fgt (mismatch (splits e) (totalAmount e)) (as_double (1 / 100)))
   \<and> (save_new d e = Inr (e, insert_doc e d)) = (validate e = [] \<and> pre_save e = Inr ())
   \<and> (save d e now = Inr (e\<lparr>updatedAt := now\<rparr>, replace_doc (e\<lparr>updatedAt := now\<rparr>) d))
        = (validate e = [] \<and> pre_save e = Inr ())
   \<and> (\<not> (validate e = [] \<and> pre_save e = Inr ()) \<longrightarrow>
        isl (save_new d e) \<and> isl (save d e now))
   \<and> (\<not> (validate e = [] \<and> pre_save e = Inr ()) \<and> new_doc newId caller now b = Some e \<longrightarrow>
        snd (createExpenditure d newId caller now b) = d
        \<and> status (fst (createExpenditure d newId caller now b)) \<noteq> 201)
   \<and> (exact_check (splits e) (totalAmount e) \<longrightarrow>
        fgt (mismatch (splits e) (totalAmount e)) (as_double (1 / 100))
          = (\<bar>sum_list (map split_amount (splits e)) - totalAmount e\<bar>
               > 5764607523034235 / 576460752303423488))"
proof (intro conjI impI)
  show "(pre_save e = Inr ()) =
     (splits e = [] \<or> \<not> fgt (mismatch (splits e) (totalAmount e)) (as_double (1 / 100)))"
    by (rule pre_save_accepts_iff)
next
  show "(save_new d e = Inr (e, insert_doc e d)) = (validate e = [] \<and> pre_save e = Inr ())"
    by (simp only: save_new_iff hooks_iff)
next
  show "(save d e now = Inr (e\<lparr>updatedAt := now\<rparr>, replace_doc (e\<lparr>updatedAt := now\<rparr>) d))
        = (validate e = [] \<and> pre_save e = Inr ())"
    by (simp only: save_iff hooks_iff)
next
  assume "\<not> (validate e = [] \<and> pre_save e = Inr ())"
  then have r: "isl (hooks e)" using hooks_cases [of e] by (auto simp: hooks_iff)
  show "isl (save_new d e)" using r by (rule save_new_rejects)
  show "isl (save d e now)" using r by (rule save_rejects)
next
  assume a: "\<not> (validate e = [] \<and> pre_save e = Inr ()) \<and> new_doc newId caller now b = Some e"
  then have r: "isl (hooks e)" using hooks_cases [of e] by (auto simp: hooks_iff)
  have "isl (Expenditure_create d newId caller now b)"
    using a r by (simp add: create_of_doc save_new_rejects)
  then have u: "snd (createExpenditure d newId caller now b) = d
     \<and> status (fst (createExpenditure d newId caller now b)) \<noteq> 201"
    by (rule create_rejected_unchanged)
  show "snd (createExpenditure d newId caller now b) = d" using u by simp
  show "status (fst (createExpenditure d newId caller now b)) \<noteq> 201" using u by simp
next
  assume "exact_check (splits e) (totalAmount e)"
  then show "fgt (mismatch (splits e) (totalAmount e)) (as_double (1 / 100))
          = (\<bar>sum_list (map split_amount (splits e)) - totalAmount e\<bar>
               > 5764607523034235 / 576460752303423488)"
    by (rule exact_test)
qed

text \<open>
  The contract at the 70 + 40 against 100 bill, whose sum is exact and which is refused,
  and at the 0.01 against 0.02 bill, which is written.
\<close>

theorem split_validator_contract_witness:
  "pre_save e70 \<noteq> Inr () \<and> new_doc 7 1 0 body70 = Some e70
   \<and> isl (save_new db0 e70) \<and> isl (save db0 e70 0)
   \<and> snd (createExpenditure db0 7 1 0 body70) = db0
   \<and> status (fst (createExpenditure db0 7 1 0 body70)) \<noteq> 201
   \<and> exact_check (splits e70) (totalAmount e70)
   \<and> fgt (mismatch (splits e70) (totalAmount e70)) (as_double (1 / 100))
   \<and> pre_save e_cent = Inr () \<and> validate e_cent = []
   \<and> save_new db0 e_cent = Inr (e_cent, insert_doc e_cent db0)"
proof -
  note t70 = split_validator_contract [of e70 db0 0 7 1 body70]
  note tc = split_validator_contract [of e_cent db0 0 7 1 body_cent]
  have n: "\<not> (validate e70 = [] \<and> pre_save e70 = Inr ())"
    using pre_save_e70 by simp
  have s: "isl (save_new db0 e70) \<and> isl (save db0 e70 0)"
    using t70 n by blast
  have c: "snd (createExpenditure db0 7 1 0 body70) = db0
     \<and> status (fst (createExpenditure db0 7 1 0 body70)) \<noteq> 201"
    using t70 n new_doc_body70 by blast
  have x: "fgt (mismatch (splits e70) (totalAmount e70)) (as_double (1 / 100))"
    using t70 exact_check_e70 by (simp add: e70_def)
  have w: "save_new db0 e_cent = Inr (e_cent, insert_doc e_cent db0)"
    using tc pre_save_e_cent validate_e_cent by blast
  show ?thesis
    using pre_save_e70 new_doc_body70 s c exact_check_e70 x pre_save_e_cent validate_e_cent w
    by (intro conjI) (simp_all del: fgt.simps)
qed

text \<open>
  Claim C8 as stated fails: a split of 0.01 against a total of 0.02 differs from the total
  by exactly 0.01, the mismatch that the hook computes is the binary64 value of 0.01,
  which the strict comparison lets through, and the bill is created.
\<close>

theorem create_mismatch_exactly_tolerance_succeeds:
  "effective_splits body_cent \<noteq> []
   \<and> effective_total body_cent = Some (2 / 100)
   \<and> \<bar>sum_list (map split_amount (effective_splits body_cent)) - 2 / 100\<bar> = 1 / 100
   \<and> mismatch (effective_splits body_cent) (2 / 100) = as_double (1 / 100)
   \<and> createExpenditure db0 7 1 0 body_cent =
       (\<lparr>status = 201, content = Entity e_cent\<rparr>, \<lparr>users = [1, 2, 3], expenditures = [e_cent]\<rparr>)"
  by code_simp

text \<open>
  Claim C8, as the code has it. A creation with a non-empty split list never answers 201
  and leaves the database as it was when the mismatch that the hook computes in binary64
  is greater than the binary64 value of 0.01. A creation whose candidate passes the schema
  validators and whose computed mismatch is not greater than that value, the value
  itself included, answers 201 and stores the document. When no operation of the hook
  rounds, a creation fails as soon as the exact difference of sum and total is above
  5764607523034235 / 2^59, the binary64 value of 0.01.
\<close>

theorem create_mismatch_above_tolerance_fails:
  "(effective_splits b \<noteq> [] \<and> effective_total b = Some t
      \<and> fgt (mismatch (effective_splits b) t) (as_double (1 / 100)) \<longrightarrow>
      status (fst (createExpenditure d newId caller now b)) \<noteq> 201
      \<and> snd (createExpenditure d newId caller now b) = d)
   \<and> (new_doc newId caller now b = Some e \<and> validate e = []
      \<and> \<not> fgt (mismatch (splits e) (totalAmount e)) (as_double (1 / 100)) \<longrightarrow>
      createExpenditure d newId caller now b
        = (\<lparr>status = 201, content = Entity e\<rparr>, insert_doc e d))
   \<and> (effective_splits b \<noteq> [] \<and> effective_total b = Some t
      \<and> exact_check (effective_splits b) t
      \<and> \<bar>sum_list (map split_amount (effective_splits b)) - t\<bar>
           > 5764607523034235 / 576460752303423488 \<longrightarrow>
      status (fst (createExpenditure d newId caller now b)) \<noteq> 201
      \<and> snd (createExpenditure d newId caller now b) = d)"
proof (intro conjI impI)
  assume a: "effective_splits b \<noteq> [] \<and> effective_total b = Some t
      \<and> fgt (mismatch (effective_splits b) t) (as_double (1 / 100))"
  then have r: "status (fst (createExpenditure d newId caller now b)) \<noteq> 201
         \<and> snd (createExpenditure d newId caller now b) = d"
    using create_mismatch_refused by blast
  show "status (fst (createExpenditure d newId caller now b)) \<noteq> 201" using r by simp
  show "snd (createExpenditure d newId caller now b) = d" using r by simp
next
  assume a: "new_doc newId caller now b = Some e \<and> validate e = []
      \<and> \<not> fgt (mismatch (splits e) (totalAmount e)) (as_double (1 / 100))"
  then have "pre_save e = Inr ()" by (simp add: pre_save_accepts_iff)
  then have "hooks e = Inr ()" using a by (simp add: hooks_iff)
  then show "createExpenditure d newId caller now b
        = (\<lparr>status = 201, content = Entity e\<rparr>, insert_doc e d)"
    using a create_accepted by blast
next
  assume a: "effective_splits b \<noteq> [] \<and> effective_total b = Some t
      \<and> exact_check (effective_splits b) t
      \<and> \<bar>sum_list (map split_amount (effective_splits b)) - t\<bar>
           > 5764607523034235 / 576460752303423488"
  then have "fgt (mismatch (effective_splits b) t) (as_double (1 / 100))"
    using exact_test [of "effective_splits b" t] by blast
  then have r: "status (fst (createExpenditure d newId caller now b)) \<noteq> 201
         \<and> snd (createExpenditure d newId caller now b) = d"
    using a create_mismatch_refused by blast
  show "status (fst (createExpenditure d newId caller now b)) \<noteq> 201" using r by simp
  show "snd (createExpenditure d newId caller now b) = d" using r by simp
qed

text \<open>
  The 70 + 40 against 100 bill is refused, its sum being exact and 10 away from the
  total; the 0.01 against 0.02 bill is created.
\<close>

theorem create_mismatch_above_tolerance_fails_witness:
  "effective_splits body70 \<noteq> [] \<and> effective_total body70 = Some 100
   \<and> exact_check (effective_splits body70) 100
   \<and> \<bar>sum_list (map split_amount (effective_splits body70)) - 100\<bar>
        > 5764607523034235 / 576460752303423488
   \<and> fgt (mismatch (effective_splits body70) 100) (as_double (1 / 100))
   \<and> status (fst (createExpenditure db0 7 1 0 body70)) \<noteq> 201
   \<and> snd (createExpenditure db0 7 1 0 body70) = db0
   \<and> new_doc 7 1 0 body_cent = Some e_cent \<and> validate e_cent = []
   \<and> createExpenditure db0 7 1 0 body_cent
        = (\<lparr>status = 201, content = Entity e_cent\<rparr>, insert_doc e_cent db0)"
proof -
  have a: "effective_splits body70 \<noteq> []" by code_simp
  have b: "effective_total body70 = Some 100" by code_simp
  have x: "exact_check (effective_splits body70) 100" by code_simp
  have c: "\<bar>sum_list (map split_amount (effective_splits body70)) - 100\<bar>
        > 5764607523034235 / 576460752303423488" by code_simp
  have g: "fgt (mismatch (effective_splits body70) 100) (as_double (1 / 100))" by code_simp
  have m: "\<not> fgt (mismatch (splits e_cent) (totalAmount e_cent)) (as_double (1 / 100))"
    by code_simp
  note t1 = create_mismatch_above_tolerance_fails [of body70 100 db0 7 1 0 e_cent]
  note t2 = create_mismatch_above_tolerance_fails [of body_cent 100 db0 7 1 0 e_cent]
  have r: "status (fst (createExpenditure db0 7 1 0 body70)) \<noteq> 201
     \<and> snd (createExpenditure db0 7 1 0 body70) = db0"
    using t1 a b x c by blast
  have w: "createExpenditure db0 7 1 0 body_cent
        = (\<lparr>status = 201, content = Entity e_cent\<rparr>, insert_doc e_cent db0)"
    using t2 new_doc_body_cent validate_e_cent m by blast
  show ?thesis
    using a b x c g r new_doc_body_cent validate_e_cent w
    by (intro conjI) (simp_all del: fgt.simps)
qed

text \<open>
  Claim C7. A POST whose splits fail the split-sum check: the hook's error is a plain
  \<open>Error\<close>, not a ValidationError, so the handler passes it on and the answer is a 500
  carrying the hook's message; the database is unchanged.
\<close>

theorem create_split_mismatch_is_500:
  "createExpenditure db0 7 1 0 body70 =
     (\<lparr>status = 500,
       content = ServerError (PlainError ''Split amounts must add up to the total amount'')\<rparr>,
      db0)"
  by code_simp

text \<open>
  Claim C10. A POST whose body carries \<open>isSettled: true\<close> next to an unpaid split: the
  handler spreads every body key but \<open>splits\<close> and \<open>totalAmount\<close> into the new
  document, so the created expenditure is stored with \<open>isSettled = True\<close>.
\<close>

theorem create_isSettled_true_from_body:
  "createExpenditure db0 7 1 0 body_flag =
     (\<lparr>status = 201, content = Entity e_flag\<rparr>, \<lparr>users = [1, 2, 3], expenditures = [e_flag]\<rparr>)
   \<and> isSettled e_flag = True"
  by code_simp

section \<open>The settlement state machine\<close>

lemma find_SomeD: "find P xs = Some x \<Longrightarrow> x \<in> set xs \<and> P x"
  by (induction xs) (auto split: if_splits)

lemma find_NoneI: "\<forall>x\<in>set xs. \<not> P x \<Longrightarrow> find P xs = None"
  by (induction xs) auto

lemma mark_first_shape:
  "mark_first u now ss = Some r \<Longrightarrow>
     \<exists>pre s post. ss = pre @ s # post \<and> u \<notin> set (map split_user pre) \<and> split_user s = u
       \<and> r = pre @ s\<lparr>paid := True, settledAt := Some now\<rparr> # post"
proof (induction ss arbitrary: r)
  case Nil
  then show ?case by simp
next
  case (Cons a ss)
  show ?case
  proof (cases "split_user a = u")
    case True
    then have "r = a\<lparr>paid := True, settledAt := Some now\<rparr> # ss"
      using Cons.prems by simp
    then have "a # ss = [] @ a # ss \<and> u \<notin> set (map split_user []) \<and> split_user a = u
       \<and> r = [] @ a\<lparr>paid := True, settledAt := Some now\<rparr> # ss"
      using True by simp
    then show ?thesis by blast
  next
    case False
    then obtain r' where r': "mark_first u now ss = Some r'" and r: "r = a # r'"
      using Cons.prems by auto
    from Cons.IH [OF r'] obtain pre s post where
      "ss = pre @ s # post" "u \<notin> set (map split_user pre)" "split_user s = u"
      "r' = pre @ s\<lparr>paid := True, settledAt := Some now\<rparr> # post"
      by blast
    then have "a # ss = (a # pre) @ s # post \<and> u \<notin> set (map split_user (a # pre))
       \<and> split_user s = u \<and> r = (a # pre) @ s\<lparr>paid := True, settledAt := Some now\<rparr> # post"
      using False r by auto
    then show ?thesis by blast
  qed
qed

lemma mark_first_None: "mark_first u now ss = None \<Longrightarrow> u \<notin> set (map split_user ss)"
  by (induction ss) (auto split: if_splits)


lemma replace_in_mem: "x \<in> set xs \<Longrightarrow> eid x = eid e \<Longrightarrow> e \<in> set (replace_in e xs)"
  by (induction xs) auto

text \<open>What a call of \<open>markSplitAsPaid\<close> that answers 200 has done.\<close>

lemma mark_paid_success:
  assumes "markSplitAsPaid d caller expenditureId now = (r, d')" and "status r = 200"
  shows "\<exists>e0 ss. e0 \<in> set (expenditures d) \<and> markable expenditureId caller e0
           \<and> mark_first caller now (splits e0) = Some ss
           \<and> r = \<lparr>status = 200, content = Entity
                 (e0\<lparr>splits := ss, isSettled := list_all paid ss, updatedAt := now\<rparr>)\<rparr>
           \<and> d' = replace_doc (e0\<lparr>splits := ss, isSettled := list_all paid ss, updatedAt := now\<rparr>) d"
proof (cases "find (markable expenditureId caller) (expenditures d)")
  case None
  then show ?thesis using assms by (auto simp: markSplitAsPaid_def)
next
  case (Some e0)
  then have m: "e0 \<in> set (expenditures d)" "markable expenditureId caller e0"
    using find_SomeD by fastforce+
  show ?thesis
  proof (cases "mark_first caller now (splits e0)")
    case None
    then show ?thesis using assms Some by (auto simp: markSplitAsPaid_def)
  next
    case (Some ss)
    let ?e2 = "if list_all paid ss then e0\<lparr>splits := ss, isSettled := True\<rparr> else e0\<lparr>splits := ss\<rparr>"
    have e2: "?e2 = e0\<lparr>splits := ss, isSettled := list_all paid ss\<rparr>"
      using m(2) by (simp add: markable_def)
    have run: "markSplitAsPaid d caller expenditureId now =
        (case save d ?e2 now of Inr (e', d') \<Rightarrow> (\<lparr>status = 200, content = Entity e'\<rparr>, d')
         | Inl err \<Rightarrow> (error_handler err, d))"
      using \<open>find (markable expenditureId caller) (expenditures d) = Some e0\<close> Some
      by (simp add: markSplitAsPaid_def Let_def)
    show ?thesis
    proof (cases "save d ?e2 now")
      case (Inl err)
      then show ?thesis using assms run by (auto simp: error_handler_def)
    next
      case (Inr p)
      obtain e' d2 where p: "p = (e', d2)" by (cases p)
      from saveD [OF Inr [unfolded p]] have s: "e' = ?e2\<lparr>updatedAt := now\<rparr>" "d2 = replace_doc e' d"
        by simp_all
      have "r = \<lparr>status = 200, content = Entity e'\<rparr>" "d' = d2"
        using assms(1) run Inr p by simp_all
      then show ?thesis using m Some s e2 by auto
    qed
  qed
qed

lemma mark_paid_not_found:
  assumes "\<forall>e\<in>set (expenditures d). \<not> markable expenditureId caller e"
  shows "markSplitAsPaid d caller expenditureId now =
     (\<lparr>status = 404, content = ErrorMsg ''Expenditure not found or already settled''\<rparr>, d)"
  using find_NoneI [OF assms] by (simp add: markSplitAsPaid_def)

lemma mark_paid_message:
  "content (fst (markSplitAsPaid d caller expenditureId now)) \<noteq> ErrorMsg ''Split not found for this user''"
proof (cases "find (markable expenditureId caller) (expenditures d)")
  case None
  then show ?thesis by (simp add: markSplitAsPaid_def)
next
  case (Some e0)
  then have "caller \<in> set (map split_user (splits e0))"
    using find_SomeD [OF Some] by (simp add: markable_def)
  then obtain ss where ss: "mark_first caller now (splits e0) = Some ss"
    using mark_first_None by (cases "mark_first caller now (splits e0)") auto
  show ?thesis
    using Some ss
    by (simp add: markSplitAsPaid_def Let_def error_handler_def split: sum.splits prod.splits)
qed

lemma mark_db1_first:
  "markSplitAsPaid db1 2 7 5 =
     (\<lparr>status = 200, content = Entity (dinner [share 2 60 True (Some 5), share 3 40 False None] False 5)\<rparr>,
      db_with [dinner [share 2 60 True (Some 5), share 3 40 False None] False 5])"
  by code_simp

lemma db_settled_all:
  "\<forall>e\<in>set (expenditures (db_with [dinner [share 2 60 True (Some 5), share 3 40 True (Some 6)] True 6])).
         eid e = 7 \<longrightarrow> isSettled e"
  by (simp add: db_with_def dinner_def)




text \<open>
  Claim C3, as the code has it: a mark-paid call answers 200 only if some stored document
  has the given id, a split of the caller and \<open>isSettled = False\<close>; when no stored
  document is like that (unknown id, no split of the caller, or already settled) the answer
  is the 404 \<open>Expenditure not found or already settled\<close> and the database is
  unchanged; and no call is ever answered with \<open>Split not found for this user\<close>.
\<close>

theorem mark_paid_guard:
  "(status (fst (markSplitAsPaid d caller expenditureId now)) = 200 \<longrightarrow>
      (\<exists>e\<in>set (expenditures d). eid e = expenditureId
          \<and> caller \<in> set (map split_user (splits e)) \<and> isSettled e = False))
   \<and> ((\<forall>e\<in>set (expenditures d). eid e \<noteq> expenditureId
          \<or> caller \<notin> set (map split_user (splits e)) \<or> isSettled e) \<longrightarrow>
      markSplitAsPaid d caller expenditureId now =
        (\<lparr>status = 404, content = ErrorMsg ''Expenditure not found or already settled''\<rparr>, d))
   \<and> content (fst (markSplitAsPaid d caller expenditureId now))
        \<noteq> ErrorMsg ''Split not found for this user''"
proof (intro conjI impI)
  assume s: "status (fst (markSplitAsPaid d caller expenditureId now)) = 200"
  obtain r d' where rd: "markSplitAsPaid d caller expenditureId now = (r, d')"
    by (cases "markSplitAsPaid d caller expenditureId now")
  then have "status r = 200" using s by simp
  from mark_paid_success [OF rd this] obtain e0 where
    "e0 \<in> set (expenditures d)" "markable expenditureId caller e0" by blast
  then show "\<exists>e\<in>set (expenditures d). eid e = expenditureId
          \<and> caller \<in> set (map split_user (splits e)) \<and> isSettled e = False"
    unfolding markable_def by blast
next
  assume "\<forall>e\<in>set (expenditures d). eid e \<noteq> expenditureId
          \<or> caller \<notin> set (map split_user (splits e)) \<or> isSettled e"
  then have "\<forall>e\<in>set (expenditures d). \<not> markable expenditureId caller e"
    by (auto simp: markable_def)
  then show "markSplitAsPaid d caller expenditureId now =
        (\<lparr>status = 404, content = ErrorMsg ''Expenditure not found or already settled''\<rparr>, d)"
    by (rule mark_paid_not_found)
next
  show "content (fst (markSplitAsPaid d caller expenditureId now))
        \<noteq> ErrorMsg ''Split not found for this user''"
    by (rule mark_paid_message)
qed

text \<open>
  User 2 marks the split of bill 7, and is refused on the unknown bill 8.
\<close>

theorem mark_paid_guard_witness:
  "status (fst (markSplitAsPaid db1 2 7 5)) = 200
   \<and> (\<exists>e\<in>set (expenditures db1). eid e = 7 \<and> 2 \<in> set (map split_user (splits e)) \<and> isSettled e = False)
   \<and> map eid (expenditures db1) = [7]
   \<and> markSplitAsPaid db1 2 8 5 =
        (\<lparr>status = 404, content = ErrorMsg ''Expenditure not found or already settled''\<rparr>, db1)"
proof -
  have a: "status (fst (markSplitAsPaid db1 2 7 5)) = 200"
    by (simp add: mark_db1_first)
  have b: "\<forall>e\<in>set (expenditures db1). eid e \<noteq> 8 \<or> 2 \<notin> set (map split_user (splits e)) \<or> isSettled e"
    by (simp add: db1_def db_with_def dinner_def)
  have c: "map eid (expenditures db1) = [7]"
    by (simp add: db1_def db_with_def dinner_def)
  note t1 = mark_paid_guard [of db1 2 7 5, THEN conjunct1, THEN mp, OF a]
  note t2 = mark_paid_guard [of db1 2 8 5, THEN conjunct2, THEN conjunct1, THEN mp, OF b]
  show ?thesis
    using a t1 c t2 by (intro conjI) assumption+
qed

text \<open>
  Claim C3 as stated fails in its last part: user 1 has no split in bill 7, and the
  message of the 404 is \<open>Expenditure not found or already settled\<close>.
\<close>

theorem mark_paid_without_split_message:
  "1 \<notin> set (map split_user (splits (dinner [share 2 60 False None, share 3 40 False None] False 0)))
   \<and> markSplitAsPaid db1 1 7 5 =
       (\<lparr>status = 404, content = ErrorMsg ''Expenditure not found or already settled''\<rparr>, db1)
   \<and> ''Expenditure not found or already settled'' \<noteq> ''Split not found for this user''"
  by code_simp

lemma find_unique:
  assumes "distinct (map eid xs)" and "e \<in> set xs" and "P e"
    and "\<And>x. P x \<Longrightarrow> eid x = eid e"
  shows "find P xs = Some e"
  using assms(1,2)
proof (induction xs)
  case Nil
  then show ?case by simp
next
  case (Cons x xs)
  show ?case
  proof (cases "P x")
    case True
    then have ids: "eid x = eid e" by (rule assms(4))
    have "x = e"
    proof (rule ccontr)
      assume "x \<noteq> e"
      then have "e \<in> set xs" using Cons.prems(2) by simp
      then have "eid e \<in> set (map eid xs)" by simp
      then show False using Cons.prems(1) ids by simp
    qed
    then show ?thesis using True by simp
  next
    case False
    then have "x \<noteq> e" using assms(3) by auto
    then have "e \<in> set xs" using Cons.prems(2) by simp
    then show ?thesis using False Cons by simp
  qed
qed

lemma mark_first_amounts:
  "mark_first u now ss = Some r \<Longrightarrow> map split_amount r = map split_amount ss"
  using mark_first_shape [of u now ss r] by auto

lemma v_splits_amounts:
  "map split_amount r = map split_amount ss \<Longrightarrow> v_splits i r = v_splits i ss"
proof (induction r arbitrary: ss i)
  case Nil
  then show ?case by simp
next
  case (Cons a r)
  then obtain b ss' where ss: "ss = b # ss'" by (cases ss) auto
  then have "split_amount a = split_amount b" and "map split_amount r = map split_amount ss'"
    using Cons.prems by simp_all
  then show ?case using Cons.IH [of ss' "Suc i"] ss by simp
qed

text \<open>The validators and the hook read the amounts of the splits only.\<close>

lemma hooks_cong:
  assumes "amount e' = amount e" and "category e' = category e"
    and "description e' = description e" and "paymentMethod e' = paymentMethod e"
    and "tags e' = tags e" and "location e' = location e"
    and "totalAmount e' = totalAmount e"
    and "map split_amount (splits e') = map split_amount (splits e)"
  shows "hooks e' = hooks e"
proof -
  have v: "validate e' = validate e"
    using assms v_splits_amounts [OF assms(8), of 0] by (simp add: validate_def)
  have l: "length (splits e') = length (splits e)"
    using assms(8) by (rule map_eq_imp_length_eq)
  have p: "pre_save e' = pre_save e"
    using assms(7,8) l by (simp add: pre_save_def totalSplitAmount_amounts)
  show ?thesis by (simp add: hooks_def v p)
qed

text \<open>
  A call for a stored document that is not settled and still passes the validators and
  the hook is answered with 200, whatever the \<open>paid\<close> flag of the caller's split.
\<close>

lemma mark_paid_runs:
  assumes "distinct (map eid (expenditures d))" and "e0 \<in> set (expenditures d)"
    and "eid e0 = expenditureId" and "caller \<in> set (map split_user (splits e0))"
    and "isSettled e0 = False" and "validate e0 = []" and "pre_save e0 = Inr ()"
  shows "status (fst (markSplitAsPaid d caller expenditureId now)) = 200"
proof -
  have m: "markable expenditureId caller e0"
    using assms(3,4,5) by (simp add: markable_def)
  have f: "find (markable expenditureId caller) (expenditures d) = Some e0"
    using assms(1,2) m
  proof (rule find_unique)
    fix x assume "markable expenditureId caller x"
    then show "eid x = eid e0" using assms(3) by (simp add: markable_def)
  qed
  obtain ss where ss: "mark_first caller now (splits e0) = Some ss"
    using assms(4) mark_first_None by (cases "mark_first caller now (splits e0)") auto
  let ?e2 = "if list_all paid ss then e0\<lparr>splits := ss, isSettled := True\<rparr> else e0\<lparr>splits := ss\<rparr>"
  have "hooks ?e2 = hooks e0"
    using mark_first_amounts [OF ss] by (intro hooks_cong) simp_all
  then have "hooks ?e2 = Inr ()"
    using assms(6,7) by (simp add: hooks_iff)
  then have "save d ?e2 now = Inr (?e2\<lparr>updatedAt := now\<rparr>, replace_doc (?e2\<lparr>updatedAt := now\<rparr>) d)"
    by (simp only: save_iff)
  then show ?thesis
    using f ss by (simp add: markSplitAsPaid_def Let_def)
qed

lemma mark_db1_second:
  "markSplitAsPaid (db_with [dinner [share 2 60 True (Some 5), share 3 40 False None] False 5]) 2 7 9 =
     (\<lparr>status = 200, content = Entity (dinner [share 2 60 True (Some 9), share 3 40 False None] False 9)\<rparr>,
      db_with [dinner [share 2 60 True (Some 9), share 3 40 False None] False 9])"
  by code_simp

lemma dinner_paid_hooks:
  "validate (dinner [share 2 60 True (Some 5), share 3 40 False None] False 5) = []
   \<and> pre_save (dinner [share 2 60 True (Some 5), share 3 40 False None] False 5) = Inr ()"
  by code_simp

lemma e_allpaid_hooks: "validate e_allpaid = [] \<and> pre_save e_allpaid = Inr ()"
  by code_simp

text \<open>
  Claim C6 as stated fails while another split is unpaid: the second call of user 2 on
  bill 7 is answered with 200 again and replaces \<open>settledAt = 5\<close> by \<open>settledAt = 9\<close>
  on a split whose \<open>paid\<close> flag was already set.
\<close>

theorem mark_paid_twice_overwrites_settledAt:
  "markSplitAsPaid db1 2 7 5 =
     (\<lparr>status = 200, content = Entity (dinner [share 2 60 True (Some 5), share 3 40 False None] False 5)\<rparr>,
      db_with [dinner [share 2 60 True (Some 5), share 3 40 False None] False 5])
   \<and> markSplitAsPaid (db_with [dinner [share 2 60 True (Some 5), share 3 40 False None] False 5]) 2 7 9 =
     (\<lparr>status = 200, content = Entity (dinner [share 2 60 True (Some 9), share 3 40 False None] False 9)\<rparr>,
      db_with [dinner [share 2 60 True (Some 9), share 3 40 False None] False 9])"
  by code_simp

text \<open>
  Claim C6, as the code has it. Every mark-paid call answered with 200 acts on a stored
  document with the given id whose \<open>isSettled\<close> flag is false, and sets \<open>paid\<close> and
  \<open>settledAt = now\<close> on the first split of the caller, whatever that split held
  before; the other splits keep their values. When every stored document with the given id
  has its \<open>isSettled\<close> flag set, the call is answered with the 404 and changes nothing.
  The \<open>paid\<close> flag of the caller's split is never consulted: in a collection with
  unique ids, a call by a participant of a stored document whose \<open>isSettled\<close> flag is
  false, and which passes the schema validators and the split check, is answered with 200,
  also when the caller's split, or every split, is already paid.
\<close>

theorem mark_paid_stamps_every_call:
  "(\<forall>r d'. markSplitAsPaid d caller expenditureId now = (r, d') \<and> status r = 200 \<longrightarrow>
      (\<exists>e0 e pre s post. e0 \<in> set (expenditures d) \<and> eid e0 = expenditureId
          \<and> isSettled e0 = False \<and> content r = Entity e \<and> e \<in> set (expenditures d')
          \<and> splits e0 = pre @ s # post \<and> caller \<notin> set (map split_user pre)
          \<and> split_user s = caller
          \<and> splits e = pre @ s\<lparr>paid := True, settledAt := Some now\<rparr> # post))
   \<and> ((\<forall>e\<in>set (expenditures d). eid e = expenditureId \<longrightarrow> isSettled e) \<longrightarrow>
        markSplitAsPaid d caller expenditureId now =
          (\<lparr>status = 404, content = ErrorMsg ''Expenditure not found or already settled''\<rparr>, d))
   \<and> (distinct (map eid (expenditures d)) \<and> e1 \<in> set (expenditures d)
        \<and> eid e1 = expenditureId \<and> caller \<in> set (map split_user (splits e1))
        \<and> isSettled e1 = False \<and> validate e1 = [] \<and> pre_save e1 = Inr () \<longrightarrow>
        status (fst (markSplitAsPaid d caller expenditureId now)) = 200)"
proof (intro conjI impI allI)
  fix r d'
  assume "markSplitAsPaid d caller expenditureId now = (r, d') \<and> status r = 200"
  then have rd: "markSplitAsPaid d caller expenditureId now = (r, d')" and st: "status r = 200"
    by simp_all
  from mark_paid_success [OF rd st] obtain e0 ss where
    a: "e0 \<in> set (expenditures d)" "markable expenditureId caller e0"
       "mark_first caller now (splits e0) = Some ss"
       "r = \<lparr>status = 200, content = Entity
              (e0\<lparr>splits := ss, isSettled := list_all paid ss, updatedAt := now\<rparr>)\<rparr>"
       "d' = replace_doc (e0\<lparr>splits := ss, isSettled := list_all paid ss, updatedAt := now\<rparr>) d"
    by blast
  let ?e = "e0\<lparr>splits := ss, isSettled := list_all paid ss, updatedAt := now\<rparr>"
  from mark_first_shape [OF a(3)] obtain pre s post where
    sh: "splits e0 = pre @ s # post" "caller \<notin> set (map split_user pre)" "split_user s = caller"
        "ss = pre @ s\<lparr>paid := True, settledAt := Some now\<rparr> # post"
    by blast
  have mem: "?e \<in> set (expenditures d')"
    using a(1,5) by (simp add: replace_doc_def replace_in_mem)
  have "e0 \<in> set (expenditures d) \<and> eid e0 = expenditureId
          \<and> isSettled e0 = False \<and> content r = Entity ?e \<and> ?e \<in> set (expenditures d')
          \<and> splits e0 = pre @ s # post \<and> caller \<notin> set (map split_user pre)
          \<and> split_user s = caller
          \<and> splits ?e = pre @ s\<lparr>paid := True, settledAt := Some now\<rparr> # post"
    using a(1,2,4) sh mem by (simp add: markable_def)
  then show "\<exists>e0 e pre s post. e0 \<in> set (expenditures d) \<and> eid e0 = expenditureId
          \<and> isSettled e0 = False \<and> content r = Entity e \<and> e \<in> set (expenditures d')
          \<and> splits e0 = pre @ s # post \<and> caller \<notin> set (map split_user pre)
          \<and> split_user s = caller
          \<and> splits e = pre @ s\<lparr>paid := True, settledAt := Some now\<rparr> # post"
    by blast
next
  assume "\<forall>e\<in>set (expenditures d). eid e = expenditureId \<longrightarrow> isSettled e"
  then have "\<forall>e\<in>set (expenditures d). \<not> markable expenditureId caller e"
    by (auto simp: markable_def)
  then show "markSplitAsPaid d caller expenditureId now =
          (\<lparr>status = 404, content = ErrorMsg ''Expenditure not found or already settled''\<rparr>, d)"
    by (rule mark_paid_not_found)
next
  assume "distinct (map eid (expenditures d)) \<and> e1 \<in> set (expenditures d)
        \<and> eid e1 = expenditureId \<and> caller \<in> set (map split_user (splits e1))
        \<and> isSettled e1 = False \<and> validate e1 = [] \<and> pre_save e1 = Inr ()"
  then show "status (fst (markSplitAsPaid d caller expenditureId now)) = 200"
    using mark_paid_runs by blast
qed

text \<open>
  The first call of user 2 on bill 7 stamps the split; on the settled bill the call is
  refused; the second call of user 2, whose split is paid by then, and a call on the bill
  that was created with its only split already paid are both answered with 200.
\<close>

theorem mark_paid_stamps_every_call_witness:
  "(markSplitAsPaid db1 2 7 5 =
     (\<lparr>status = 200, content = Entity (dinner [share 2 60 True (Some 5), share 3 40 False None] False 5)\<rparr>,
      db_with [dinner [share 2 60 True (Some 5), share 3 40 False None] False 5])
    \<and> status \<lparr>status = 200, content = Entity (dinner [share 2 60 True (Some 5), share 3 40 False None] False 5)\<rparr> = 200)
   \<and> (\<exists>e0 e pre s post. e0 \<in> set (expenditures db1) \<and> eid e0 = 7 \<and> isSettled e0 = False
          \<and> Entity (dinner [share 2 60 True (Some 5), share 3 40 False None] False 5) = Entity e
          \<and> e \<in> set (expenditures (db_with [dinner [share 2 60 True (Some 5), share 3 40 False None] False 5]))
          \<and> splits e0 = pre @ s # post \<and> 2 \<notin> set (map split_user pre) \<and> split_user s = 2
          \<and> splits e = pre @ s\<lparr>paid := True, settledAt := Some 5\<rparr> # post)
   \<and> map isSettled (expenditures (db_with [dinner [share 2 60 True (Some 5), share 3 40 True (Some 6)] True 6]))
         = [True]
   \<and> markSplitAsPaid (db_with [dinner [share 2 60 True (Some 5), share 3 40 True (Some 6)] True 6]) 2 7 9 =
       (\<lparr>status = 404, content = ErrorMsg ''Expenditure not found or already settled''\<rparr>,
        db_with [dinner [share 2 60 True (Some 5), share 3 40 True (Some 6)] True 6])
   \<and> map paid (splits (dinner [share 2 60 True (Some 5), share 3 40 False None] False 5)) = [True, False]
   \<and> status (fst (markSplitAsPaid
         (db_with [dinner [share 2 60 True (Some 5), share 3 40 False None] False 5]) 2 7 9)) = 200
   \<and> list_all paid (splits e_allpaid)
   \<and> status (fst (markSplitAsPaid (db_with [e_allpaid]) 2 7 9)) = 200"
proof -
  have h: "markSplitAsPaid db1 2 7 5 =
     (\<lparr>status = 200, content = Entity (dinner [share 2 60 True (Some 5), share 3 40 False None] False 5)\<rparr>,
      db_with [dinner [share 2 60 True (Some 5), share 3 40 False None] False 5])
    \<and> status \<lparr>status = 200, content = Entity (dinner [share 2 60 True (Some 5), share 3 40 False None] False 5)\<rparr> = 200"
    using mark_db1_first by simp
  note t1 = mark_paid_stamps_every_call [of db1 2 7 5, THEN conjunct1, THEN spec, THEN spec, THEN mp, OF h]
  note t2 = mark_paid_stamps_every_call [THEN conjunct2, THEN conjunct1, THEN mp, OF db_settled_all]
  have c1: "\<exists>e0 e pre s post. e0 \<in> set (expenditures db1) \<and> eid e0 = 7 \<and> isSettled e0 = False
          \<and> Entity (dinner [share 2 60 True (Some 5), share 3 40 False None] False 5) = Entity e
          \<and> e \<in> set (expenditures (db_with [dinner [share 2 60 True (Some 5), share 3 40 False None] False 5]))
          \<and> splits e0 = pre @ s # post \<and> 2 \<notin> set (map split_user pre) \<and> split_user s = 2
          \<and> splits e = pre @ s\<lparr>paid := True, settledAt := Some 5\<rparr> # post"
    using t1 by simp
  have st: "map isSettled (expenditures (db_with [dinner [share 2 60 True (Some 5), share 3 40 True (Some 6)] True 6]))
         = [True]"
    by (simp add: db_with_def dinner_def)
  have p: "map paid (splits (dinner [share 2 60 True (Some 5), share 3 40 False None] False 5)) = [True, False]"
    by (simp add: dinner_def share_def)
  have g: "distinct (map eid (expenditures (db_with [dinner [share 2 60 True (Some 5), share 3 40 False None] False 5])))
      \<and> dinner [share 2 60 True (Some 5), share 3 40 False None] False 5
          \<in> set (expenditures (db_with [dinner [share 2 60 True (Some 5), share 3 40 False None] False 5]))
      \<and> eid (dinner [share 2 60 True (Some 5), share 3 40 False None] False 5) = 7
      \<and> 2 \<in> set (map split_user (splits (dinner [share 2 60 True (Some 5), share 3 40 False None] False 5)))
      \<and> isSettled (dinner [share 2 60 True (Some 5), share 3 40 False None] False 5) = False
      \<and> validate (dinner [share 2 60 True (Some 5), share 3 40 False None] False 5) = []
      \<and> pre_save (dinner [share 2 60 True (Some 5), share 3 40 False None] False 5) = Inr ()"
    using dinner_paid_hooks by (simp add: db_with_def dinner_def share_def)
  note t3 = mark_paid_stamps_every_call [THEN conjunct2, THEN conjunct2, THEN mp, OF g]
  have ap: "list_all paid (splits e_allpaid)"
    by (simp add: e_allpaid_def)
  have ga: "distinct (map eid (expenditures (db_with [e_allpaid])))
      \<and> e_allpaid \<in> set (expenditures (db_with [e_allpaid]))
      \<and> eid e_allpaid = 7 \<and> 2 \<in> set (map split_user (splits e_allpaid))
      \<and> isSettled e_allpaid = False \<and> validate e_allpaid = [] \<and> pre_save e_allpaid = Inr ()"
    using e_allpaid_hooks by (simp add: db_with_def e_allpaid_def)
  note t4 = mark_paid_stamps_every_call [THEN conjunct2, THEN conjunct2, THEN mp, OF ga]
  show ?thesis
    using h [THEN conjunct1] h [THEN conjunct2] c1 st t2 [of 2 9] p t3 [of 9] ap t4 [of 9]
    by (intro conjI) assumption+
qed

section \<open>The field-update path\<close>

lemma cast_into_frame:
  "(\<And>x. frame (upd x) = frame (fst st)) \<Longrightarrow> frame (fst (cast_into k r upd st)) = frame (fst st)"
  by (cases r) (simp_all add: cast_into_def)

lemma allowed_cases:
  "k \<in> set allowedUpdates \<Longrightarrow> k = ''amount'' \<or> k = ''category'' \<or> k = ''description'' \<or> k = ''date''
     \<or> k = ''paymentMethod'' \<or> k = ''tags'' \<or> k = ''location''"
  by (simp add: allowedUpdates_def)

lemma assign_frame:
  assumes "k \<in> set allowedUpdates"
  shows "frame (fst (assign c k v st)) = frame (fst st)"
  using allowed_cases [OF assms]
proof (elim disjE)
  assume k: "k = ''amount''"
  have "frame (fst (cast_into ''amount'' (to_number c v) (\<lambda>x. (fst st)\<lparr>amount := x\<rparr>) st)) = frame (fst st)"
    by (rule cast_into_frame) (simp add: frame_def)
  then show ?thesis unfolding k by (simp add: assign_def Let_def)
next
  assume k: "k = ''category''"
  have "frame (fst (cast_into ''category'' (to_string c v) (\<lambda>x. (fst st)\<lparr>category := x\<rparr>) st)) = frame (fst st)"
    by (rule cast_into_frame) (simp add: frame_def)
  then show ?thesis unfolding k by (simp add: assign_def Let_def)
next
  assume k: "k = ''description''"
  have "frame (fst (cast_into ''description'' (to_string c v) (\<lambda>x. (fst st)\<lparr>description := trim x\<rparr>) st)) = frame (fst st)"
    by (rule cast_into_frame) (simp add: frame_def)
  then show ?thesis unfolding k by (simp add: assign_def Let_def)
next
  assume k: "k = ''date''"
  have "frame (fst (cast_into ''date'' (to_date c v) (\<lambda>x. (fst st)\<lparr>date := x\<rparr>) st)) = frame (fst st)"
    by (rule cast_into_frame) (simp add: frame_def)
  then show ?thesis unfolding k by (simp add: assign_def Let_def)
next
  assume k: "k = ''paymentMethod''"
  have "frame (fst (cast_into ''paymentMethod'' (to_string c v) (\<lambda>x. (fst st)\<lparr>paymentMethod := x\<rparr>) st)) = frame (fst st)"
    by (rule cast_into_frame) (simp add: frame_def)
  then show ?thesis unfolding k by (simp add: assign_def Let_def)
next
  assume k: "k = ''tags''"
  have "frame (fst (cast_into ''tags'' (to_tags c v) (\<lambda>x. (fst st)\<lparr>tags := x\<rparr>) st)) = frame (fst st)"
    by (rule cast_into_frame) (simp add: frame_def)
  then show ?thesis unfolding k by (simp add: assign_def Let_def)
next
  assume k: "k = ''location''"
  have "frame (fst (cast_into ''location'' (to_opt_string c v) (\<lambda>x. (fst st)\<lparr>location := map_option trim x\<rparr>) st)) = frame (fst st)"
    by (rule cast_into_frame) (simp add: frame_def)
  then show ?thesis unfolding k by (simp add: assign_def Let_def)
qed

lemma foldl_updates_frame:
  "list_all (\<lambda>update. update \<in> set allowedUpdates) ks \<Longrightarrow>
     frame (fst (foldl (\<lambda>st update. case map_of b update of None \<Rightarrow> st
                                     | Some v \<Rightarrow> assign c update v st) st ks)) = frame (fst st)"
proof (induction ks arbitrary: st)
  case Nil
  then show ?case by simp
next
  case (Cons k ks)
  then have k: "k \<in> set allowedUpdates" and ks: "list_all (\<lambda>update. update \<in> set allowedUpdates) ks"
    by simp_all
  show ?case
    using Cons.IH [OF ks] assign_frame [OF k]
    by (cases "map_of b k") simp_all
qed

lemma apply_updates_frame:
  "isValidOperation (map fst b) \<Longrightarrow> frame (fst (apply_updates c b e)) = frame e"
  unfolding apply_updates_def isValidOperation_def
  using foldl_updates_frame [where ks = "map fst b" and b = b and c = c and st = "(e, [])"] by simp

lemma replace_in_frame:
  "distinct (map eid xs) \<Longrightarrow> e \<in> set xs \<Longrightarrow> frame e' = frame e \<Longrightarrow>
     map frame (replace_in e' xs) = map frame xs"
proof (induction xs)
  case Nil
  then show ?case by simp
next
  case (Cons x xs)
  have ids: "eid e' = eid e" using Cons.prems(3) by (simp add: frame_def)
  show ?case
  proof (cases "eid x = eid e'")
    case True
    have "x = e"
    proof (rule ccontr)
      assume "x \<noteq> e"
      then have "e \<in> set xs" using Cons.prems(2) by simp
      then have "eid e \<in> set (map eid xs)" by simp
      then show False using Cons.prems(1) True ids by simp
    qed
    then show ?thesis using True Cons.prems(3) by simp
  next
    case False
    then have "e \<in> set xs" using Cons.prems(2) ids by auto
    then show ?thesis using False Cons by simp
  qed
qed

lemma update_frame:
  assumes "distinct (map eid (expenditures d))"
  shows "map frame (expenditures (snd (updateExpenditure c d caller ident now b)))
           = map frame (expenditures d)"
proof (cases "isValidOperation (map fst b)")
  case False
  then show ?thesis by (simp add: updateExpenditure_def)
next
  case True
  show ?thesis
  proof (cases "find (\<lambda>e. eid e = ident \<and> user e = caller) (expenditures d)")
    case None
    then show ?thesis using True by (simp add: updateExpenditure_def)
  next
    case (Some e)
    then have mem: "e \<in> set (expenditures d)" using find_SomeD by fastforce
    let ?st = "apply_updates c b e"
    have fr: "frame (fst ?st) = frame e" using True by (rule apply_updates_frame)
    show ?thesis
    proof (cases "snd ?st \<noteq> [] \<or> isl (save d (fst ?st) now)")
      case True
      then show ?thesis
        using \<open>isValidOperation (map fst b)\<close> Some
        by (auto simp: updateExpenditure_def Let_def error_handler_def
              split: sum.splits error.splits)
    next
      case False
      then obtain e' d' where sv: "save d (fst ?st) now = Inr (e', d')"
        by (cases "save d (fst ?st) now") auto
      from saveD [OF sv] have e': "e' = (fst ?st)\<lparr>updatedAt := now\<rparr>" and d': "d' = replace_doc e' d"
        by simp_all
      have "frame e' = frame e" using fr e' by (simp add: frame_def)
      then have "map frame (expenditures d') = map frame (expenditures d)"
        using d' replace_in_frame [OF assms mem] by (simp add: replace_doc_def)
      moreover have "snd (updateExpenditure c d caller ident now b) = d'"
        using \<open>isValidOperation (map fst b)\<close> Some False sv
        by (simp add: updateExpenditure_def Let_def)
      ultimately show ?thesis by simp
    qed
  qed
qed

lemma map_frame_fields:
  "map frame xs = map frame ys \<Longrightarrow>
     map splits xs = map splits ys \<and> map totalAmount xs = map totalAmount ys
     \<and> map paidBy xs = map paidBy ys \<and> map isSettled xs = map isSettled ys"
proof -
  assume a: "map frame xs = map frame ys"
  have s: "splits = (\<lambda>p. fst (snd (snd p))) \<circ> frame"
    and t: "totalAmount = (\<lambda>p. fst (snd (snd (snd p)))) \<circ> frame"
    and p: "paidBy = (\<lambda>p. fst (snd (snd (snd (snd p))))) \<circ> frame"
    and i: "isSettled = (\<lambda>p. snd (snd (snd (snd (snd p))))) \<circ> frame"
    by (auto simp: frame_def fun_eq_iff)
  have "\<And>g. map (g \<circ> frame) xs = map (g \<circ> frame) ys"
    using a by (metis map_map)
  then show ?thesis
    by (metis s t p i)
qed

lemma update_db1_amount:
  "updateExpenditure strict_casts db1 1 7 5 [(''amount'', JNum 120)] =
     (\<lparr>status = 200, content = Entity
         ((dinner [share 2 60 False None, share 3 40 False None] False 5)\<lparr>amount := 120\<rparr>)\<rparr>,
      db_with [(dinner [share 2 60 False None, share 3 40 False None] False 5)\<lparr>amount := 120\<rparr>])"
  by code_simp

text \<open>
  Claim C9. A PATCH whose body has a key outside amount, category, description, date,
  paymentMethod, tags and location is answered with 400 \<open>Invalid updates\<close> and the
  database is unchanged. Whatever the body and the casts, in a collection with unique ids
  the \<open>splits\<close>, \<open>totalAmount\<close>, \<open>paidBy\<close> and \<open>isSettled\<close> of every
  stored document are the same after the request as before.
\<close>

theorem update_whitelist:
  "(\<not> set (map fst b) \<subseteq> {''amount'', ''category'', ''description'', ''date'', ''paymentMethod'',
                           ''tags'', ''location''} \<longrightarrow>
      updateExpenditure c d caller ident now b =
        (\<lparr>status = 400, content = ErrorMsg ''Invalid updates''\<rparr>, d))
   \<and> (distinct (map eid (expenditures d)) \<longrightarrow>
        map splits (expenditures (snd (updateExpenditure c d caller ident now b)))
          = map splits (expenditures d)
        \<and> map totalAmount (expenditures (snd (updateExpenditure c d caller ident now b)))
          = map totalAmount (expenditures d)
        \<and> map paidBy (expenditures (snd (updateExpenditure c d caller ident now b)))
          = map paidBy (expenditures d)
        \<and> map isSettled (expenditures (snd (updateExpenditure c d caller ident now b)))
          = map isSettled (expenditures d))"
proof (intro conjI impI)
  assume "\<not> set (map fst b) \<subseteq> {''amount'', ''category'', ''description'', ''date'',
            ''paymentMethod'', ''tags'', ''location''}"
  then have "\<not> isValidOperation (map fst b)"
    by (auto simp: isValidOperation_def allowedUpdates_def list_all_iff)
  then show "updateExpenditure c d caller ident now b =
        (\<lparr>status = 400, content = ErrorMsg ''Invalid updates''\<rparr>, d)"
    by (simp add: updateExpenditure_def)
next
  assume dist: "distinct (map eid (expenditures d))"
  note f = map_frame_fields [OF update_frame [OF dist, of c caller ident now b]]
  show "map splits (expenditures (snd (updateExpenditure c d caller ident now b)))
          = map splits (expenditures d)" using f by simp
  show "map totalAmount (expenditures (snd (updateExpenditure c d caller ident now b)))
          = map totalAmount (expenditures d)" using f by simp
  show "map paidBy (expenditures (snd (updateExpenditure c d caller ident now b)))
          = map paidBy (expenditures d)" using f by simp
  show "map isSettled (expenditures (snd (updateExpenditure c d caller ident now b)))
          = map isSettled (expenditures d)" using f by simp
qed

text \<open>
  A PATCH of \<open>isSettled\<close> is refused; a PATCH of \<open>amount\<close> is applied and
  leaves \<open>isSettled\<close> alone.
\<close>

theorem update_whitelist_witness:
  "\<not> set (map fst [(''isSettled'', JBool True)]) \<subseteq> {''amount'', ''category'', ''description'',
        ''date'', ''paymentMethod'', ''tags'', ''location''}
   \<and> updateExpenditure strict_casts db1 1 7 5 [(''isSettled'', JBool True)] =
        (\<lparr>status = 400, content = ErrorMsg ''Invalid updates''\<rparr>, db1)
   \<and> distinct (map eid (expenditures db1))
   \<and> status (fst (updateExpenditure strict_casts db1 1 7 5 [(''amount'', JNum 120)])) = 200
   \<and> map amount (expenditures (snd (updateExpenditure strict_casts db1 1 7 5 [(''amount'', JNum 120)]))) = [120]
   \<and> map isSettled (expenditures (snd (updateExpenditure strict_casts db1 1 7 5 [(''amount'', JNum 120)])))
       = map isSettled (expenditures db1)"
proof -
  have a: "\<not> set (map fst [(''isSettled'', JBool True)]) \<subseteq> {''amount'', ''category'', ''description'',
        ''date'', ''paymentMethod'', ''tags'', ''location''}"
    by simp
  have b: "distinct (map eid (expenditures db1))"
    by (simp add: db1_def db_with_def)
  have e1: "status (fst (updateExpenditure strict_casts db1 1 7 5 [(''amount'', JNum 120)])) = 200"
    unfolding update_db1_amount by simp
  have e2: "map amount (expenditures (snd (updateExpenditure strict_casts db1 1 7 5 [(''amount'', JNum 120)]))) = [120]"
    unfolding update_db1_amount by (simp add: db_with_def dinner_def)
  note w1 = update_whitelist [of "[(''isSettled'', JBool True)]" strict_casts db1 1 7 5,
      THEN conjunct1, THEN mp, OF a]
  note w2 = update_whitelist [of "[(''amount'', JNum 120)]" strict_casts db1 1 7 5,
      THEN conjunct2, THEN mp, OF b, THEN conjunct2, THEN conjunct2, THEN conjunct2]
  show ?thesis
    using a w1 b e1 e2 w2 by (intro conjI) assumption+
qed

section \<open>The Balance Aggregator\<close>











lemmas eval_groups = groups_def stage_group_def stage_lookup_def stage_match_def mk_group_def
  group_key_def owed_def userSplit_def sum_owed_def mk_transaction_def bill_def share_def Let_def

lemma groups_db_own:
  "groups db_own 1 =
     [\<lparr>counterparty = Some 1, totalOwed = 40,
       transactions = [\<lparr>t_id = 7, t_description = ''Dinner'', t_amount = Some 40, t_date = 0\<rparr>],
       userDetails = Some 1\<rparr>]"
  by (simp add: eval_groups db_own_def)



text \<open>
  Claim C4. User 1 paid bill 7, whose splits are the payer's own paid split of 40 followed
  by the unpaid split of 60 of user 2. The aggregator reads the first element of the split
  list only: the single row has user 1 as counterparty with 40, and the 60 that user 2
  owes is not recorded.
\<close>

theorem payer_summary_takes_first_split:
  "getSettlementSummary db_own 1 =
     \<lparr>settlements =
        [\<lparr>counterparty = Some 1, totalOwed = 40,
          transactions = [\<lparr>t_id = 7, t_description = ''Dinner'', t_amount = Some 40, t_date = 0\<rparr>],
          userDetails = Some 1\<rparr>],
      totalToReceive = 40, totalToPay = 0\<rparr>"
  unfolding getSettlementSummary_def summary_def groups_db_own by simp

end
